theory Spec2Isabelle
  imports Complex_Main "HOL-Library.Word"
begin

unbundle bit_operations_syntax

section \<open>Values, errors and byte access\<close>

text \<open>
  The program is \<^verbatim>\<open>CR450DataCheck/DataCheck_V1.0.1.py\<close>. A frame is a Python
  \<^verbatim>\<open>bytes\<close> object: a list of 8-bit values. The offsets and sizes that the
  configuration file supplies (\<^verbatim>\<open>timeoffset\<close>, \<^verbatim>\<open>frameoffset\<close>, \<^verbatim>\<open>framesize\<close>)
  are Python integers that the program never validates; they are modelled as integers,
  negative values included. The positions written in the code are constants and are
  natural numbers. An exception of the source is the left summand of a sum type.
\<close>

type_synonym byte = "8 word"
type_synonym frame = "byte list"

datatype error = ValueError | IndexError | StructError | TypeError | OSError

text \<open>Sequencing of computations that may raise: the first exception ends the run.\<close>

definition thenR :: "error + 'a \<Rightarrow> ('a \<Rightarrow> error + 'b) \<Rightarrow> error + 'b" where
  "thenR m f = (case m of Inl e \<Rightarrow> Inl e | Inr x \<Rightarrow> f x)"

text \<open>\<^verbatim>\<open>frame[i]\<close> at a constant position: IndexError past the end.\<close>

definition byte_at :: "frame \<Rightarrow> nat \<Rightarrow> error + byte" where
  "byte_at frame i = (if i < length frame then Inr (frame ! i) else Inl IndexError)"

text \<open>
  \<^verbatim>\<open>frame[i]\<close> at a position computed from the configuration: a negative index
  counts from the end of the frame, and IndexError is raised below \<open>-len(frame)\<close> and
  from \<open>len(frame)\<close> on.
\<close>

definition py_index :: "frame \<Rightarrow> int \<Rightarrow> error + byte" where
  "py_index frame i =
     (if 0 \<le> i \<and> i < int (length frame) then Inr (frame ! nat i)
      else if i < 0 \<and> - int (length frame) \<le> i then Inr (frame ! nat (int (length frame) + i))
      else Inl IndexError)"

text \<open>
  \<^verbatim>\<open>struct.unpack('>H', frame[a:a+2])[0]\<close>: the slice never raises but may be short,
  and then \<^verbatim>\<open>struct.unpack\<close> raises \<^verbatim>\<open>struct.error\<close>; otherwise the two bytes are
  read big-endian.
\<close>

definition unpack_H :: "frame \<Rightarrow> nat \<Rightarrow> error + nat" where
  "unpack_H frame a =
     (case take 2 (drop a frame) of
        [hi, lo] \<Rightarrow> Inr (unat hi * 256 + unat lo)
      | _ \<Rightarrow> Inl StructError)"

section \<open>Calendar time\<close>

text \<open>
  A naive \<^verbatim>\<open>datetime\<close> with its six fields. The constructor raises ValueError
  unless the fields form a date of the proleptic Gregorian calendar between the years
  1 and 9999 and a time of day.
\<close>

record civil =
  year :: nat
  month :: nat
  day :: nat
  hour :: nat
  minute :: nat
  second :: nat

definition is_leap :: "nat \<Rightarrow> bool" where
  "is_leap y = (y mod 4 = 0 \<and> (y mod 100 \<noteq> 0 \<or> y mod 400 = 0))"

definition days_in_month :: "nat \<Rightarrow> nat \<Rightarrow> nat" where
  "days_in_month y m =
     (if m = 2 then (if is_leap y then 29 else 28)
      else if m = 4 \<or> m = 6 \<or> m = 9 \<or> m = 11 then 30 else 31)"

definition valid_civil :: "nat \<Rightarrow> nat \<Rightarrow> nat \<Rightarrow> nat \<Rightarrow> nat \<Rightarrow> nat \<Rightarrow> bool" where
  "valid_civil y mo d h mi s =
     (1 \<le> y \<and> y \<le> 9999 \<and> 1 \<le> mo \<and> mo \<le> 12 \<and> 1 \<le> d \<and> d \<le> days_in_month y mo
      \<and> h < 24 \<and> mi < 60 \<and> s < 60)"

definition datetime :: "nat \<Rightarrow> nat \<Rightarrow> nat \<Rightarrow> nat \<Rightarrow> nat \<Rightarrow> nat \<Rightarrow> error + civil" where
  "datetime y mo d h mi s =
     (if valid_civil y mo d h mi s
      then Inr \<lparr>year = y, month = mo, day = d, hour = h, minute = mi, second = s\<rparr>
      else Inl ValueError)"

text \<open>
  \<^verbatim>\<open>dt.timestamp()\<close> and \<^verbatim>\<open>datetime.fromtimestamp(t)\<close> convert between wall-clock
  fields and epoch seconds by the local time rules of the host. The rules are not part
  of the program, so they are a parameter of the model: \<open>mktime\<close> is the first
  conversion and \<open>localtime\<close> the second. The third field is the library's
  \<^verbatim>\<open>datetime.strptime(s, '%Y-%m-%d %H:%M:%S')\<close>, which raises ValueError on a string
  that it does not accept.
\<close>

record host_clock =
  mktime :: "civil \<Rightarrow> int"
  localtime :: "int \<Rightarrow> civil"
  strptime :: "string \<Rightarrow> error + civil"

text \<open>
  One concrete host, used for the worked examples: a host whose local time is UTC.
  The day number of a date and its inverse are computed in 400-year eras that start on
  1 March.
\<close>

definition days_from_civil :: "int \<Rightarrow> int \<Rightarrow> int \<Rightarrow> int" where
  "days_from_civil y m d =
     (let y' = (if m \<le> 2 then y - 1 else y);
          era = y' div 400;
          yoe = y' - era * 400;
          doy = (153 * (if m > 2 then m - 3 else m + 9) + 2) div 5 + d - 1;
          doe = yoe * 365 + yoe div 4 - yoe div 100 + doy
      in era * 146097 + doe - 719468)"

definition utc_mktime :: "civil \<Rightarrow> int" where
  "utc_mktime c =
     days_from_civil (int (year c)) (int (month c)) (int (day c)) * 86400
     + int (hour c) * 3600 + int (minute c) * 60 + int (second c)"

definition utc_localtime :: "int \<Rightarrow> civil" where
  "utc_localtime t =
     (let z = t div 86400 + 719468;
          r = t mod 86400;
          era = z div 146097;
          doe = z - era * 146097;
          yoe = (doe - doe div 1460 + doe div 36524 - doe div 146096) div 365;
          doy = doe - (365 * yoe + yoe div 4 - yoe div 100);
          mp = (5 * doy + 2) div 153;
          d = doy - (153 * mp + 2) div 5 + 1;
          m = (if mp < 10 then mp + 3 else mp - 9);
          y = yoe + era * 400 + (if m \<le> 2 then 1 else 0)
      in \<lparr>year = nat y, month = nat m, day = nat d,
          hour = nat (r div 3600), minute = nat (r mod 3600 div 60), second = nat (r mod 60)\<rparr>)"

text \<open>
  The sample host parses a time string of the zero-padded form
  \<^verbatim>\<open>YYYY-MM-DD HH:MM:SS\<close>.
\<close>

definition digit_of :: "char \<Rightarrow> nat option" where
  "digit_of c = map_of (zip ''0123456789'' [0, 1, 2, 3, 4, 5, 6, 7, 8, 9]) c"

fun number_of :: "char list \<Rightarrow> nat option" where
  "number_of [] = Some 0"
| "number_of (c # cs) =
     (case (digit_of c, number_of cs) of
        (Some d, Some n) \<Rightarrow> Some (d * 10 ^ length cs + n)
      | _ \<Rightarrow> None)"

definition padded_strptime :: "string \<Rightarrow> error + civil" where
  "padded_strptime s =
     (if length s = 19 \<and> s ! 4 = CHR ''-'' \<and> s ! 7 = CHR ''-'' \<and> s ! 10 = CHR '' ''
         \<and> s ! 13 = CHR '':'' \<and> s ! 16 = CHR '':''
      then case (number_of (take 4 s), number_of (take 2 (drop 5 s)), number_of (take 2 (drop 8 s)),
                 number_of (take 2 (drop 11 s)), number_of (take 2 (drop 14 s)),
                 number_of (take 2 (drop 17 s))) of
             (Some y, Some mo, Some d, Some h, Some mi, Some sec) \<Rightarrow> datetime y mo d h mi sec
           | _ \<Rightarrow> Inl ValueError
      else Inl ValueError)"

definition utc_clock :: host_clock where
  "utc_clock = \<lparr>mktime = utc_mktime, localtime = utc_localtime, strptime = padded_strptime\<rparr>"

section \<open>The frame codec: \<^verbatim>\<open>extract_frame_time\<close>\<close>

text \<open>
  The six reads of the \<^verbatim>\<open>try\<close> block, in the order of the source. The only
  exception they can raise is IndexError, which the handler turns into ValueError.
  The time offset is the integer of the configuration: the reads follow Python's rule
  for a negative index.
\<close>

definition time_fields :: "frame \<Rightarrow> int \<Rightarrow> error + (byte \<times> byte \<times> byte \<times> byte \<times> byte \<times> byte)" where
  "time_fields frame time_offset =
     thenR (py_index frame time_offset) (\<lambda>year_byte.
     thenR (py_index frame (time_offset + 1)) (\<lambda>month_byte.
     thenR (py_index frame (time_offset + 2)) (\<lambda>day_byte.
     thenR (py_index frame (time_offset + 3)) (\<lambda>hour_byte.
     thenR (py_index frame (time_offset + 4)) (\<lambda>minute_byte.
     thenR (py_index frame (time_offset + 5)) (\<lambda>second_byte.
     Inr (year_byte, month_byte, day_byte, hour_byte, minute_byte, second_byte)))))))"

definition extract_frame_time :: "host_clock \<Rightarrow> frame \<Rightarrow> int \<Rightarrow> error + int" where
  "extract_frame_time clk frame time_offset =
     (if length frame < 255 then Inl ValueError
      else case time_fields frame time_offset of
        Inl e \<Rightarrow> Inl ValueError
      | Inr (year_byte, month_byte, day_byte, hour_byte, minute_byte, second_byte) \<Rightarrow>
          thenR (datetime (2000 + unat year_byte) (unat month_byte) (unat day_byte)
                   (unat hour_byte) (unat minute_byte) (unat second_byte))
            (\<lambda>dt. Inr (mktime clk dt)))"

section \<open>Summary values and the reductions of the aggregation loops\<close>

text \<open>
  A slot of a summary is a Python number or a string. The numbers of the source are
  integers (raw bytes, the initial 0) and floats (a raw field times its scale). The
  model takes both as exact rationals: every comparison of the source is between
  values decoded from the same field with the same scale (or the initial 0), where the
  floating-point product is a strictly increasing function of the raw field, so the
  order and the equalities of the floats are those of the exact products.
\<close>

datatype pyval = Num rat | Str string

text \<open>\<^verbatim>\<open>a > b\<close>: defined between two numbers, TypeError between a number and a string.\<close>

fun py_gt :: "pyval \<Rightarrow> pyval \<Rightarrow> error + bool" where
  "py_gt (Num a) (Num b) = Inr (a > b)"
| "py_gt _ _ = Inl TypeError"

text \<open>\<^verbatim>\<open>res[k]\<close> and \<^verbatim>\<open>res[k] = v\<close> on a Python list.\<close>

definition get_at :: "pyval list \<Rightarrow> nat \<Rightarrow> error + pyval" where
  "get_at res k = (if k < length res then Inr (res ! k) else Inl IndexError)"

definition set_at :: "pyval list \<Rightarrow> nat \<Rightarrow> pyval \<Rightarrow> error + pyval list" where
  "set_at res k v = (if k < length res then Inr (res[k := v]) else Inl IndexError)"

text \<open>Running the statements of a loop body one after the other.\<close>

fun seqR :: "('s \<Rightarrow> error + 's) list \<Rightarrow> 's \<Rightarrow> error + 's" where
  "seqR [] s = Inr s"
| "seqR (f # fs) s = thenR (f s) (seqR fs)"

text \<open>\<^verbatim>\<open>for i in range(n): body\<close> and \<^verbatim>\<open>for frame in framelist: body\<close>.\<close>

definition for_range :: "nat \<Rightarrow> (nat \<Rightarrow> 's \<Rightarrow> error + 's) \<Rightarrow> 's \<Rightarrow> error + 's" where
  "for_range n body = seqR (map body [0..<n])"

fun for_frames :: "('s \<Rightarrow> frame \<Rightarrow> error + 's) \<Rightarrow> 's \<Rightarrow> frame list \<Rightarrow> error + 's" where
  "for_frames body s [] = Inr s"
| "for_frames body s (frame # framelist) = thenR (body s frame) (\<lambda>s'. for_frames body s' framelist)"

text \<open>Decoding a field: a raw byte or a big-endian 16-bit value, times a scale.\<close>

definition u8_scaled :: "frame \<Rightarrow> nat \<Rightarrow> rat \<Rightarrow> error + rat" where
  "u8_scaled frame i scale = thenR (byte_at frame i) (\<lambda>b. Inr (of_nat (unat b) * scale))"

definition u16_scaled :: "frame \<Rightarrow> nat \<Rightarrow> rat \<Rightarrow> error + rat" where
  "u16_scaled frame a scale = thenR (unpack_H frame a) (\<lambda>raw. Inr (of_nat raw * scale))"

text \<open>
  \<^verbatim>\<open>frame[a] or frame[b] or ...\<close>: the bytes are read from the left and the reading
  stops at the first non-zero one.
\<close>

fun any_byte :: "frame \<Rightarrow> nat list \<Rightarrow> error + bool" where
  "any_byte frame [] = Inr False"
| "any_byte frame (i # is) =
     thenR (byte_at frame i) (\<lambda>b. if b \<noteq> 0 then Inr True else any_byte frame is)"

text \<open>
  \<^verbatim>\<open>dt.strftime("%Y-%m-%d %H:%M:%S")\<close> of the local time of the frame's timestamp.
\<close>

definition digit :: "nat \<Rightarrow> char" where
  "digit n = ''0123456789'' ! (n mod 10)"

definition digits2 :: "nat \<Rightarrow> string" where
  "digits2 n = [digit (n div 10), digit n]"

definition digits4 :: "nat \<Rightarrow> string" where
  "digits4 n = [digit (n div 1000), digit (n div 100), digit (n div 10), digit n]"

definition strftime :: "civil \<Rightarrow> string" where
  "strftime dt =
     digits4 (year dt) @ ''-'' @ digits2 (month dt) @ ''-'' @ digits2 (day dt) @ '' '' @
     digits2 (hour dt) @ '':'' @ digits2 (minute dt) @ '':'' @ digits2 (second dt)"

definition frame_time_str :: "host_clock \<Rightarrow> frame \<Rightarrow> int \<Rightarrow> error + string" where
  "frame_time_str clk frame time_offset =
     thenR (extract_frame_time clk frame time_offset) (\<lambda>datetime_obj.
     Inr (strftime (localtime clk datetime_obj)))"

text \<open>The bit masks that the judge functions define.\<close>

definition BIT0_MASK :: byte where "BIT0_MASK = 0b00000001"
definition BIT1_MASK :: byte where "BIT1_MASK = 0b00000010"
definition BIT2_MASK :: byte where "BIT2_MASK = 0b00000100"
definition BIT3_MASK :: byte where "BIT3_MASK = 0b00001000"
definition BIT4_MASK :: byte where "BIT4_MASK = 0b00010000"
definition BIT5_MASK :: byte where "BIT5_MASK = 0b00100000"
definition BIT6_MASK :: byte where "BIT6_MASK = 0b01000000"
definition BIT7_MASK :: byte where "BIT7_MASK = 0b10000000"

text \<open>
  \<^verbatim>\<open>round(x, 3)\<close>: to the nearest multiple of one thousandth, a tie going to the
  even one.
\<close>

definition round_half_even :: "rat \<Rightarrow> int" where
  "round_half_even x =
     (let f = \<lfloor>x\<rfloor>; r = x - of_int f
      in if r < 1 / 2 then f else if r > 1 / 2 then f + 1 else if even f then f else f + 1)"

definition round3 :: "rat \<Rightarrow> rat" where
  "round3 x = of_int (round_half_even (x * 1000)) / 1000"

definition u16_round3 :: "frame \<Rightarrow> nat \<Rightarrow> rat \<Rightarrow> error + rat" where
  "u16_round3 frame a scale = thenR (unpack_H frame a) (\<lambda>raw. Inr (round3 (of_nat raw * scale)))"

text \<open>
  WNDS\_data\_judge and BIDS\_data\_judge keep their accumulators in local variables
  and return them in a list. The model keeps the variables in a list of slots, a
  variable at its position in the returned list.
\<close>

fun var_slot :: "string list \<Rightarrow> string \<Rightarrow> nat" where
  "var_slot [] x = 0"
| "var_slot (y # ys) x = (if x = y then 0 else 1 + var_slot ys x)"

subsection \<open>The repeated blocks, on a list of slots\<close>

text \<open>
  \<^verbatim>\<open>if speed > res[k]: res[k] = speed\<close>
\<close>

definition max_at :: "nat \<Rightarrow> rat \<Rightarrow> pyval list \<Rightarrow> error + pyval list" where
  "max_at k speed res =
     thenR (get_at res k) (\<lambda>cur.
     thenR (py_gt (Num speed) cur) (\<lambda>gt.
       if gt then set_at res k (Num speed) else Inr res))"

text \<open>
  \<^verbatim>\<open>if cond: res[k] = formatted_time\<close>
\<close>

definition mark_at :: "bool \<Rightarrow> nat \<Rightarrow> string \<Rightarrow> pyval list \<Rightarrow> error + pyval list" where
  "mark_at cond k formatted_time res =
     (if cond then set_at res k (Str formatted_time) else Inr res)"

text \<open>
  \<^verbatim>\<open>
  if v > res[kmax]:
      res[kmax] = v
      res[kspeed] = speed
  elif v == res[kmax]:
      if speed > res[kspeed]:
          res[kspeed] = speed
  \<close>
\<close>

definition judge_at :: "nat \<Rightarrow> nat \<Rightarrow> rat \<Rightarrow> rat \<Rightarrow> pyval list \<Rightarrow> error + pyval list" where
  "judge_at kmax kspeed v speed res =
     thenR (get_at res kmax) (\<lambda>cur.
     thenR (py_gt (Num v) cur) (\<lambda>gt.
       if gt then
         thenR (set_at res kmax (Num v)) (\<lambda>res. set_at res kspeed (Num speed))
       else if Num v = cur then
         thenR (get_at res kspeed) (\<lambda>cur_speed.
         thenR (py_gt (Num speed) cur_speed) (\<lambda>gt2.
           if gt2 then set_at res kspeed (Num speed) else Inr res))
       else Inr res))"

text \<open>
  The three-level block of the two main-frequency-amplitude channels:
  \<^verbatim>\<open>
  if amp > res[kamp]:
      res[kamp] = amp
      res[kfre] = fre
      res[kspeed] = speed
  elif amp == res[kamp]:
      if fre > res[kfre]:
          res[kfre] = fre
          res[kspeed] = speed
      elif fre == res[kfre]:
          if speed > res[kspeed]:
              res[kspeed] = speed
  \<close>
\<close>

definition judge3_at ::
  "nat \<Rightarrow> nat \<Rightarrow> nat \<Rightarrow> rat \<Rightarrow> rat \<Rightarrow> rat \<Rightarrow> pyval list \<Rightarrow> error + pyval list" where
  "judge3_at kamp kfre kspeed amp fre speed res =
     thenR (get_at res kamp) (\<lambda>cur.
     thenR (py_gt (Num amp) cur) (\<lambda>gt.
       if gt then
         thenR (set_at res kamp (Num amp)) (\<lambda>res.
         thenR (set_at res kfre (Num fre)) (\<lambda>res. set_at res kspeed (Num speed)))
       else if Num amp = cur then
         thenR (get_at res kfre) (\<lambda>cur_fre.
         thenR (py_gt (Num fre) cur_fre) (\<lambda>gt2.
           if gt2 then
             thenR (set_at res kfre (Num fre)) (\<lambda>res. set_at res kspeed (Num speed))
           else if Num fre = cur_fre then
             thenR (get_at res kspeed) (\<lambda>cur_speed.
             thenR (py_gt (Num speed) cur_speed) (\<lambda>gt3.
               if gt3 then set_at res kspeed (Num speed) else Inr res))
           else Inr res))
       else Inr res))"

definition u8 :: "frame \<Rightarrow> nat \<Rightarrow> error + rat" where
  "u8 frame i = thenR (byte_at frame i) (\<lambda>b. Inr (of_nat (unat b)))"

text \<open>
  The same block where the value stored on \<^verbatim>\<open>v > res[kmax]\<close> is read from
  another place than the value compared (the read happens only on that branch):
  \<^verbatim>\<open>
  if frame[a] > res[kmax]:
      res[kmax] = frame[b]
      res[kspeed] = speed
  elif frame[a] == res[kmax]:
      if speed > res[kspeed]:
          res[kspeed] = speed
  \<close>
\<close>

definition judge_store_at ::
  "nat \<Rightarrow> nat \<Rightarrow> rat \<Rightarrow> (error + rat) \<Rightarrow> rat \<Rightarrow> pyval list \<Rightarrow> error + pyval list" where
  "judge_store_at kmax kspeed v stored speed res =
     thenR (get_at res kmax) (\<lambda>cur.
     thenR (py_gt (Num v) cur) (\<lambda>gt.
       if gt then
         thenR stored (\<lambda>w.
         thenR (set_at res kmax (Num w)) (\<lambda>res. set_at res kspeed (Num speed)))
       else if Num v = cur then
         thenR (get_at res kspeed) (\<lambda>cur_speed.
         thenR (py_gt (Num speed) cur_speed) (\<lambda>gt2.
           if gt2 then set_at res kspeed (Num speed) else Inr res))
       else Inr res))"

section \<open>\<^verbatim>\<open>GVDS_data_judge\<close>\<close>

text \<open>
  The body of the loop over the frames, statement by statement. The two blocks over
  the bytes from 176 and from 146 store \<^verbatim>\<open>frame[176 + i * 2]\<close> and
  \<^verbatim>\<open>frame[146 + i * 2]\<close> where they compare \<^verbatim>\<open>frame[176 + i]\<close> and
  \<^verbatim>\<open>frame[146 + i]\<close>; they are written as the source has them.
\<close>

definition GVDS_frame :: "host_clock \<Rightarrow> int \<Rightarrow> pyval list \<Rightarrow> frame \<Rightarrow> error + pyval list" where
  "GVDS_frame clk time_offset res0 frame =
     thenR (frame_time_str clk frame time_offset) (\<lambda>formatted_time.
     thenR (u16_scaled frame 78 (1 / 100)) (\<lambda>speed.
     seqR [
       max_at 0 speed,
       (\<lambda>res. thenR (byte_at frame 87) (\<lambda>b. mark_at (b AND 0b00110000 \<noteq> 0) 1 formatted_time res)),
       (\<lambda>res. thenR (any_byte frame [88, 89]) (\<lambda>c. mark_at c 2 formatted_time res)),
       (\<lambda>res. thenR (any_byte frame [218, 221, 232, 233, 234, 235, 238, 247, 248, 249, 250, 253])
          (\<lambda>c. mark_at c 3 formatted_time res)),
       (\<lambda>res. thenR (any_byte frame [219, 222, 224, 225, 226, 227, 236, 239, 240, 241, 242, 251])
          (\<lambda>c. mark_at c 4 formatted_time res)),
       (\<lambda>res. thenR (any_byte frame [220, 223, 228, 229, 230, 231, 237, 243, 244, 245, 246, 252])
          (\<lambda>c. mark_at c 5 formatted_time res)),
       for_range 16 (\<lambda>i res. thenR (u8_scaled frame (286 + i) (1 / 10)) (\<lambda>v.
          mark_at (v < 8 \<or> v > 14) 6 formatted_time res)),
       for_range 4 (\<lambda>i res. thenR (u8 frame (92 + i)) (\<lambda>v.
          judge_at (7 + i * 2) (7 + 1 + i * 2) v speed res)),
       for_range 4 (\<lambda>i res. thenR (u8 frame (104 + i)) (\<lambda>v.
          judge_at (15 + i * 2) (15 + 1 + i * 2) v speed res)),
       for_range 4 (\<lambda>i res. thenR (u8 frame (116 + i)) (\<lambda>v.
          judge_at (23 + i * 2) (23 + 1 + i * 2) v speed res)),
       for_range 4 (\<lambda>i res. thenR (u8 frame (128 + i)) (\<lambda>v.
          judge_at (31 + i * 2) (31 + 1 + i * 2) v speed res)),
       for_range 4 (\<lambda>i res. thenR (u8 frame (140 + i)) (\<lambda>v.
          judge_at (39 + i * 2) (39 + 1 + i * 2) v speed res)),
       for_range 4 (\<lambda>i res. thenR (u8 frame (152 + i)) (\<lambda>v.
          judge_at (47 + i * 2) (47 + 1 + i * 2) v speed res)),
       for_range 4 (\<lambda>i res. thenR (u8 frame (164 + i)) (\<lambda>v.
          judge_at (55 + i * 2) (55 + 1 + i * 2) v speed res)),
       for_range 4 (\<lambda>i res. thenR (u8 frame (176 + i)) (\<lambda>v.
          judge_store_at (63 + i * 2) (63 + 1 + i * 2) v (u8 frame (176 + i * 2)) speed res)),
       for_range 4 (\<lambda>i res. thenR (u8 frame (98 + i)) (\<lambda>v.
          judge_at (71 + i * 2) (71 + 1 + i * 2) v speed res)),
       for_range 4 (\<lambda>i res. thenR (u8 frame (110 + i)) (\<lambda>v.
          judge_at (79 + i * 2) (79 + 1 + i * 2) v speed res)),
       for_range 4 (\<lambda>i res. thenR (u8 frame (122 + i)) (\<lambda>v.
          judge_at (87 + i * 2) (87 + 1 + i * 2) v speed res)),
       for_range 4 (\<lambda>i res. thenR (u8 frame (134 + i)) (\<lambda>v.
          judge_at (95 + i * 2) (95 + 1 + i * 2) v speed res)),
       for_range 4 (\<lambda>i res. thenR (u8 frame (146 + i)) (\<lambda>v.
          judge_store_at (103 + i * 2) (103 + 1 + i * 2) v (u8 frame (146 + i * 2)) speed res)),
       for_range 4 (\<lambda>i res. thenR (u8 frame (158 + i)) (\<lambda>v.
          judge_at (111 + i * 2) (111 + 1 + i * 2) v speed res)),
       for_range 4 (\<lambda>i res. thenR (u8 frame (170 + i)) (\<lambda>v.
          judge_at (119 + i * 2) (119 + 1 + i * 2) v speed res)),
       for_range 4 (\<lambda>i res. thenR (u8 frame (182 + i)) (\<lambda>v.
          judge_at (127 + i * 2) (127 + 1 + i * 2) v speed res)),
       for_range 4 (\<lambda>i res. thenR (u16_scaled frame (186 + i * 2) (1 / 10)) (\<lambda>val.
          judge_at (135 + i * 2) (135 + 1 + i * 2) val speed res)),
       for_range 4 (\<lambda>i res. thenR (u16_scaled frame (202 + i * 2) (1 / 10)) (\<lambda>val.
          judge_at (143 + i * 2) (143 + 1 + i * 2) val speed res)),
       for_range 4 (\<lambda>i res. thenR (u16_scaled frame (194 + i * 2) (1 / 10)) (\<lambda>val.
          judge_at (151 + i * 2) (151 + 1 + i * 2) val speed res)),
       for_range 4 (\<lambda>i res. thenR (u16_scaled frame (210 + i * 2) (1 / 10)) (\<lambda>val.
          judge_at (159 + i * 2) (159 + 1 + i * 2) val speed res)),
       for_range 4 (\<lambda>i res. thenR (u16_scaled frame (254 + i * 2) (1 / 10)) (\<lambda>val.
          judge_at (167 + i * 2) (167 + 1 + i * 2) val speed res)),
       for_range 4 (\<lambda>i res. thenR (u16_scaled frame (270 + i * 2) (1 / 10)) (\<lambda>val.
          judge_at (175 + i * 2) (175 + 1 + i * 2) val speed res)),
       for_range 4 (\<lambda>i res. thenR (u16_scaled frame (262 + i * 2) (1 / 10)) (\<lambda>val.
          judge_at (183 + i * 2) (183 + 1 + i * 2) val speed res)),
       for_range 4 (\<lambda>i res. thenR (u16_scaled frame (278 + i * 2) (1 / 10)) (\<lambda>val.
          judge_at (191 + i * 2) (191 + 1 + i * 2) val speed res))
     ] res0))"

definition GVDS_data_judge :: "host_clock \<Rightarrow> frame list \<Rightarrow> int \<Rightarrow> error + pyval list" where
  "GVDS_data_judge clk framelist time_offset =
     for_frames (GVDS_frame clk time_offset) (replicate 199 (Num 0)) framelist"

section \<open>\<^verbatim>\<open>WNDS_data_judge\<close>\<close>

text \<open>
  The local variables of the function, in the order of the list it returns. Each is
  initialised to 0 before the loop. The model keeps the variables in a list of slots
  in this order, so that the list returned is the list of slots after the loop.
\<close>

definition WNDS_variables :: "string list" where
  "WNDS_variables =
     [''speed_max'', ''sharedata_comm'', ''sensor_check'', ''sensor_realtime'',
      ''stable_HX_warn'', ''stable_HX_alarm'', ''stable_CX_warn'', ''stable_CX_alarm'',
      ''douche_warn'', ''douche_alarm'', ''shake_warn'', ''shake_alarm'',
      ''stable_1HX_max'', ''stable_1HX_speed'', ''stable_2HX_max'', ''stable_2HX_speed'',
      ''stable_1CX_max'', ''stable_1CX_speed'', ''stable_2CX_max'', ''stable_2CX_speed'',
      ''peak_0p2_3_1HX_max'', ''peak_0p2_3_1HX_speed'', ''peak_0p2_3_2HX_max'', ''peak_0p2_3_2HX_speed'',
      ''rms_5_13_1HX_max'', ''rms_5_13_1HX_speed'', ''rms_5_13_2HX_max'', ''rms_5_13_2HX_speed'',
      ''rms_5_13_1CX_max'', ''rms_5_13_1CX_speed'', ''rms_5_13_2CX_max'', ''rms_5_13_2CX_speed'',
      ''main_fre_amp_1CX_max'', ''main_fre_1CX'', ''main_fre_amp_1CX_speed'', ''main_fre_amp_2CX_max'',
      ''main_fre_2CX'', ''main_fre_amp_2CX_speed'', ''acc_max_1HX_max'', ''acc_max_1HX_speed'',
      ''acc_max_2HX_max'', ''acc_max_2HX_speed'', ''acc_valid_1HX_max'', ''acc_valid_1HX_speed'',
      ''acc_valid_2HX_max'', ''acc_valid_2HX_speed'', ''acc_max_1CX_max'', ''acc_max_1CX_speed'',
      ''acc_max_2CX_max'', ''acc_max_2CX_speed'', ''acc_valid_1CX_max'', ''acc_valid_1CX_speed'',
      ''acc_valid_2CX_max'', ''acc_valid_2CX_speed'']"

definition WNDS_var :: "string \<Rightarrow> nat" where
  "WNDS_var x = var_slot WNDS_variables x"

definition WNDS_frame :: "host_clock \<Rightarrow> int \<Rightarrow> pyval list \<Rightarrow> frame \<Rightarrow> error + pyval list" where
  "WNDS_frame clk time_offset res0 frame =
     thenR (frame_time_str clk frame time_offset) (\<lambda>formatted_time.
     thenR (u16_scaled frame 78 (1 / 100)) (\<lambda>speed.
     seqR [
       max_at (WNDS_var ''speed_max'') speed,
       (\<lambda>res. thenR (byte_at frame 87) (\<lambda>b.
          mark_at (b AND BIT4_MASK \<noteq> 0 \<or> b AND BIT5_MASK \<noteq> 0) (WNDS_var ''sharedata_comm'') formatted_time res)),
       (\<lambda>res. thenR (byte_at frame 90) (\<lambda>b.
          mark_at (b AND BIT0_MASK \<noteq> 0 \<or> b AND BIT1_MASK \<noteq> 0) (WNDS_var ''sensor_check'') formatted_time res)),
       (\<lambda>res. thenR (byte_at frame 90) (\<lambda>b.
          mark_at (b AND BIT2_MASK \<noteq> 0 \<or> b AND BIT3_MASK \<noteq> 0) (WNDS_var ''sensor_realtime'') formatted_time res)),
       (\<lambda>res. thenR (byte_at frame 88) (\<lambda>b.
          mark_at (b AND BIT0_MASK \<noteq> 0) (WNDS_var ''stable_HX_warn'') formatted_time res)),
       (\<lambda>res. thenR (byte_at frame 88) (\<lambda>b.
          mark_at (b AND BIT4_MASK \<noteq> 0) (WNDS_var ''stable_HX_alarm'') formatted_time res)),
       (\<lambda>res. thenR (byte_at frame 88) (\<lambda>b.
          mark_at (b AND BIT1_MASK \<noteq> 0) (WNDS_var ''stable_CX_warn'') formatted_time res)),
       (\<lambda>res. thenR (byte_at frame 88) (\<lambda>b.
          mark_at (b AND BIT5_MASK \<noteq> 0) (WNDS_var ''stable_CX_alarm'') formatted_time res)),
       (\<lambda>res. thenR (byte_at frame 89) (\<lambda>b.
          mark_at (b AND BIT1_MASK \<noteq> 0) (WNDS_var ''douche_warn'') formatted_time res)),
       (\<lambda>res. thenR (byte_at frame 89) (\<lambda>b.
          mark_at (b AND BIT5_MASK \<noteq> 0) (WNDS_var ''douche_alarm'') formatted_time res)),
       (\<lambda>res. thenR (byte_at frame 89) (\<lambda>b.
          mark_at (b AND BIT0_MASK \<noteq> 0) (WNDS_var ''shake_warn'') formatted_time res)),
       (\<lambda>res. thenR (byte_at frame 89) (\<lambda>b.
          mark_at (b AND BIT4_MASK \<noteq> 0) (WNDS_var ''shake_alarm'') formatted_time res)),
       (\<lambda>res. thenR (u16_scaled frame 105 (1 / 100)) (\<lambda>stable_1HX.
          judge_at (WNDS_var ''stable_1HX_max'') (WNDS_var ''stable_1HX_speed'') stable_1HX speed res)),
       (\<lambda>res. thenR (u16_scaled frame 107 (1 / 100)) (\<lambda>stable_2HX.
          judge_at (WNDS_var ''stable_2HX_max'') (WNDS_var ''stable_2HX_speed'') stable_2HX speed res)),
       (\<lambda>res. thenR (u16_scaled frame 109 (1 / 100)) (\<lambda>stable_1CX.
          judge_at (WNDS_var ''stable_1CX_max'') (WNDS_var ''stable_1CX_speed'') stable_1CX speed res)),
       (\<lambda>res. thenR (u16_scaled frame 111 (1 / 100)) (\<lambda>stable_2CX.
          judge_at (WNDS_var ''stable_2CX_max'') (WNDS_var ''stable_2CX_speed'') stable_2CX speed res)),
       (\<lambda>res. thenR (u8_scaled frame 93 (1 / 1000)) (\<lambda>peak_0p2_3_1HX.
          judge_at (WNDS_var ''peak_0p2_3_1HX_max'') (WNDS_var ''peak_0p2_3_1HX_speed'') peak_0p2_3_1HX speed res)),
       (\<lambda>res. thenR (u8_scaled frame 94 (1 / 1000)) (\<lambda>peak_0p2_3_2HX.
          judge_at (WNDS_var ''peak_0p2_3_2HX_max'') (WNDS_var ''peak_0p2_3_2HX_speed'') peak_0p2_3_2HX speed res)),
       (\<lambda>res. thenR (u8_scaled frame 95 (1 / 1000)) (\<lambda>rms_5_13_1HX.
          judge_at (WNDS_var ''rms_5_13_1HX_max'') (WNDS_var ''rms_5_13_1HX_speed'') rms_5_13_1HX speed res)),
       (\<lambda>res. thenR (u8_scaled frame 96 (1 / 1000)) (\<lambda>rms_5_13_2HX.
          judge_at (WNDS_var ''rms_5_13_2HX_max'') (WNDS_var ''rms_5_13_2HX_speed'') rms_5_13_2HX speed res)),
       (\<lambda>res. thenR (u8_scaled frame 97 (1 / 1000)) (\<lambda>rms_5_13_1CX.
          judge_at (WNDS_var ''rms_5_13_1CX_max'') (WNDS_var ''rms_5_13_1CX_speed'') rms_5_13_1CX speed res)),
       (\<lambda>res. thenR (u8_scaled frame 98 (1 / 1000)) (\<lambda>rms_5_13_2CX.
          judge_at (WNDS_var ''rms_5_13_2CX_max'') (WNDS_var ''rms_5_13_2CX_speed'') rms_5_13_2CX speed res)),
       (\<lambda>res. thenR (u8_scaled frame 99 (1 / 1000)) (\<lambda>main_fre_amp_1CX.
          thenR (u16_scaled frame 101 (1 / 10)) (\<lambda>main_fre.
          judge3_at (WNDS_var ''main_fre_amp_1CX_max'') (WNDS_var ''main_fre_1CX'') (WNDS_var ''main_fre_amp_1CX_speed'') main_fre_amp_1CX main_fre speed res))),
       (\<lambda>res. thenR (u8_scaled frame 100 (1 / 1000)) (\<lambda>main_fre_amp_2CX.
          thenR (u16_scaled frame 103 (1 / 10)) (\<lambda>main_fre.
          judge3_at (WNDS_var ''main_fre_amp_2CX_max'') (WNDS_var ''main_fre_2CX'') (WNDS_var ''main_fre_amp_2CX_speed'') main_fre_amp_2CX main_fre speed res))),
       (\<lambda>res. thenR (u16_scaled frame 117 (1 / 1000)) (\<lambda>acc_max_1HX.
          judge_at (WNDS_var ''acc_max_1HX_max'') (WNDS_var ''acc_max_1HX_speed'') acc_max_1HX speed res)),
       (\<lambda>res. thenR (u16_scaled frame 119 (1 / 1000)) (\<lambda>acc_max_2HX.
          judge_at (WNDS_var ''acc_max_2HX_max'') (WNDS_var ''acc_max_2HX_speed'') acc_max_2HX speed res)),
       (\<lambda>res. thenR (u16_scaled frame 129 (1 / 1000)) (\<lambda>acc_valid_1HX.
          judge_at (WNDS_var ''acc_valid_1HX_max'') (WNDS_var ''acc_valid_1HX_speed'') acc_valid_1HX speed res)),
       (\<lambda>res. thenR (u16_scaled frame 131 (1 / 1000)) (\<lambda>acc_valid_2HX.
          judge_at (WNDS_var ''acc_valid_2HX_max'') (WNDS_var ''acc_valid_2HX_speed'') acc_valid_2HX speed res)),
       (\<lambda>res. thenR (u16_scaled frame 121 (1 / 1000)) (\<lambda>acc_max_1CX.
          judge_at (WNDS_var ''acc_max_1CX_max'') (WNDS_var ''acc_max_1CX_speed'') acc_max_1CX speed res)),
       (\<lambda>res. thenR (u16_scaled frame 123 (1 / 1000)) (\<lambda>acc_max_2CX.
          judge_at (WNDS_var ''acc_max_2CX_max'') (WNDS_var ''acc_max_2CX_speed'') acc_max_2CX speed res)),
       (\<lambda>res. thenR (u16_scaled frame 133 (1 / 1000)) (\<lambda>acc_valid_1CX.
          judge_at (WNDS_var ''acc_valid_1CX_max'') (WNDS_var ''acc_valid_1CX_speed'') acc_valid_1CX speed res)),
       (\<lambda>res. thenR (u16_scaled frame 135 (1 / 1000)) (\<lambda>acc_valid_2CX.
          judge_at (WNDS_var ''acc_valid_2CX_max'') (WNDS_var ''acc_valid_2CX_speed'') acc_valid_2CX speed res))
     ] res0))"

definition WNDS_data_judge :: "host_clock \<Rightarrow> frame list \<Rightarrow> int \<Rightarrow> error + pyval list" where
  "WNDS_data_judge clk framelist time_offset =
     for_frames (WNDS_frame clk time_offset) (replicate (length WNDS_variables) (Num 0)) framelist"

section \<open>\<^verbatim>\<open>BIDS_data_judge\<close>\<close>

text \<open>
  The local variables of the function, in the order of the list it returns. Each is
  initialised to 0 before the loop. The model keeps the variables in a list of slots
  in this order, so that the list returned is the list of slots after the loop.
\<close>

definition BIDS_variables :: "string list" where
  "BIDS_variables =
     [''speed_max'', ''sharedata_comm'', ''sensor_check'', ''sensor_realtime'',
      ''offset_fault'', ''bogie_warn'', ''bogie_alarm'', ''min_1HX_max'',
      ''min_1HX_speed'', ''min_2HX_max'', ''min_2HX_speed'', ''min_3HX_max'',
      ''min_3HX_speed'', ''min_4HX_max'', ''min_4HX_speed'', ''mean_1HX_max'',
      ''mean_1HX_speed'', ''mean_2HX_max'', ''mean_2HX_speed'', ''mean_3HX_max'',
      ''mean_3HX_speed'', ''mean_4HX_max'', ''mean_4HX_speed'', ''max_1HX_max'',
      ''max_1HX_speed'', ''max_2HX_max'', ''max_2HX_speed'', ''max_3HX_max'',
      ''max_3HX_speed'', ''max_4HX_max'', ''max_4HX_speed'', ''rms_1HX_max'',
      ''rms_1HX_speed'', ''rms_2HX_max'', ''rms_2HX_speed'', ''rms_3HX_max'',
      ''rms_3HX_speed'', ''rms_4HX_max'', ''rms_4HX_speed'', ''max_1CX_max'',
      ''max_1CX_speed'', ''max_2CX_max'', ''max_2CX_speed'', ''max_3CX_max'',
      ''max_3CX_speed'', ''max_4CX_max'', ''max_4CX_speed'', ''rms_1CX_max'',
      ''rms_1CX_speed'', ''rms_2CX_max'', ''rms_2CX_speed'', ''rms_3CX_max'',
      ''rms_3CX_speed'', ''rms_4CX_max'', ''rms_4CX_speed'']"

definition BIDS_var :: "string \<Rightarrow> nat" where
  "BIDS_var x = var_slot BIDS_variables x"

definition BIDS_frame :: "host_clock \<Rightarrow> int \<Rightarrow> pyval list \<Rightarrow> frame \<Rightarrow> error + pyval list" where
  "BIDS_frame clk time_offset res0 frame =
     thenR (frame_time_str clk frame time_offset) (\<lambda>formatted_time.
     thenR (u16_scaled frame 78 (1 / 100)) (\<lambda>speed.
     seqR [
       max_at (BIDS_var ''speed_max'') speed,
       (\<lambda>res. thenR (byte_at frame 87) (\<lambda>b.
          mark_at (b AND BIT4_MASK \<noteq> 0 \<or> b AND BIT5_MASK \<noteq> 0) (BIDS_var ''sharedata_comm'') formatted_time res)),
       (\<lambda>res. thenR (byte_at frame 89) (\<lambda>b.
          mark_at (b AND 0b00001111 \<noteq> 0) (BIDS_var ''sensor_check'') formatted_time res)),
       (\<lambda>res. thenR (byte_at frame 89) (\<lambda>b.
          mark_at (b AND 0b11110000 \<noteq> 0) (BIDS_var ''sensor_realtime'') formatted_time res)),
       (\<lambda>res. thenR (byte_at frame 90) (\<lambda>b.
          mark_at (b AND 0b00001111 \<noteq> 0) (BIDS_var ''offset_fault'') formatted_time res)),
       (\<lambda>res. thenR (byte_at frame 91) (\<lambda>b.
          mark_at (b AND 0b00001111 \<noteq> 0) (BIDS_var ''bogie_warn'') formatted_time res)),
       (\<lambda>res. thenR (byte_at frame 91) (\<lambda>b.
          mark_at (b AND 0b11110000 \<noteq> 0) (BIDS_var ''bogie_alarm'') formatted_time res)),
       (\<lambda>res. thenR (u16_scaled frame 92 (1 / 1000)) (\<lambda>min_1HX.
          judge_at (BIDS_var ''min_1HX_max'') (BIDS_var ''min_1HX_speed'') min_1HX speed res)),
       (\<lambda>res. thenR (u16_scaled frame 94 (1 / 1000)) (\<lambda>min_2HX.
          judge_at (BIDS_var ''min_2HX_max'') (BIDS_var ''min_2HX_speed'') min_2HX speed res)),
       (\<lambda>res. thenR (u16_scaled frame 96 (1 / 1000)) (\<lambda>min_3HX.
          judge_at (BIDS_var ''min_3HX_max'') (BIDS_var ''min_3HX_speed'') min_3HX speed res)),
       (\<lambda>res. thenR (u16_scaled frame 98 (1 / 1000)) (\<lambda>min_4HX.
          judge_at (BIDS_var ''min_4HX_max'') (BIDS_var ''min_4HX_speed'') min_4HX speed res)),
       (\<lambda>res. thenR (u16_scaled frame 100 (1 / 1000)) (\<lambda>mean_1HX.
          judge_at (BIDS_var ''mean_1HX_max'') (BIDS_var ''mean_1HX_speed'') mean_1HX speed res)),
       (\<lambda>res. thenR (u16_scaled frame 102 (1 / 1000)) (\<lambda>mean_2HX.
          judge_at (BIDS_var ''mean_2HX_max'') (BIDS_var ''mean_2HX_speed'') mean_2HX speed res)),
       (\<lambda>res. thenR (u16_scaled frame 104 (1 / 1000)) (\<lambda>mean_3HX.
          judge_at (BIDS_var ''mean_3HX_max'') (BIDS_var ''mean_3HX_speed'') mean_3HX speed res)),
       (\<lambda>res. thenR (u16_scaled frame 106 (1 / 1000)) (\<lambda>mean_4HX.
          judge_at (BIDS_var ''mean_4HX_max'') (BIDS_var ''mean_4HX_speed'') mean_4HX speed res)),
       (\<lambda>res. thenR (u16_scaled frame 108 (1 / 1000)) (\<lambda>max_1HX.
          judge_at (BIDS_var ''max_1HX_max'') (BIDS_var ''max_1HX_speed'') max_1HX speed res)),
       (\<lambda>res. thenR (u16_scaled frame 110 (1 / 1000)) (\<lambda>max_2HX.
          judge_at (BIDS_var ''max_2HX_max'') (BIDS_var ''max_2HX_speed'') max_2HX speed res)),
       (\<lambda>res. thenR (u16_scaled frame 112 (1 / 1000)) (\<lambda>max_3HX.
          judge_at (BIDS_var ''max_3HX_max'') (BIDS_var ''max_3HX_speed'') max_3HX speed res)),
       (\<lambda>res. thenR (u16_scaled frame 114 (1 / 1000)) (\<lambda>max_4HX.
          judge_at (BIDS_var ''max_4HX_max'') (BIDS_var ''max_4HX_speed'') max_4HX speed res)),
       (\<lambda>res. thenR (u16_scaled frame 116 (1 / 1000)) (\<lambda>rms_1HX.
          judge_at (BIDS_var ''rms_1HX_max'') (BIDS_var ''rms_1HX_speed'') rms_1HX speed res)),
       (\<lambda>res. thenR (u16_scaled frame 118 (1 / 1000)) (\<lambda>rms_2HX.
          judge_at (BIDS_var ''rms_2HX_max'') (BIDS_var ''rms_2HX_speed'') rms_2HX speed res)),
       (\<lambda>res. thenR (u16_scaled frame 120 (1 / 1000)) (\<lambda>rms_3HX.
          judge_at (BIDS_var ''rms_3HX_max'') (BIDS_var ''rms_3HX_speed'') rms_3HX speed res)),
       (\<lambda>res. thenR (u16_scaled frame 122 (1 / 1000)) (\<lambda>rms_4HX.
          judge_at (BIDS_var ''rms_4HX_max'') (BIDS_var ''rms_4HX_speed'') rms_4HX speed res)),
       (\<lambda>res. thenR (u16_scaled frame 124 (1 / 1000)) (\<lambda>max_1CX.
          judge_at (BIDS_var ''max_1CX_max'') (BIDS_var ''max_1CX_speed'') max_1CX speed res)),
       (\<lambda>res. thenR (u16_scaled frame 126 (1 / 1000)) (\<lambda>max_2CX.
          judge_at (BIDS_var ''max_2CX_max'') (BIDS_var ''max_2CX_speed'') max_2CX speed res)),
       (\<lambda>res. thenR (u16_scaled frame 128 (1 / 1000)) (\<lambda>max_3CX.
          judge_at (BIDS_var ''max_3CX_max'') (BIDS_var ''max_3CX_speed'') max_3CX speed res)),
       (\<lambda>res. thenR (u16_scaled frame 130 (1 / 1000)) (\<lambda>max_4CX.
          judge_at (BIDS_var ''max_4CX_max'') (BIDS_var ''max_4CX_speed'') max_4CX speed res)),
       (\<lambda>res. thenR (u16_scaled frame 132 (1 / 1000)) (\<lambda>rms_1CX.
          judge_at (BIDS_var ''rms_1CX_max'') (BIDS_var ''rms_1CX_speed'') rms_1CX speed res)),
       (\<lambda>res. thenR (u16_scaled frame 134 (1 / 1000)) (\<lambda>rms_2CX.
          judge_at (BIDS_var ''rms_2CX_max'') (BIDS_var ''rms_2CX_speed'') rms_2CX speed res)),
       (\<lambda>res. thenR (u16_scaled frame 136 (1 / 1000)) (\<lambda>rms_3CX.
          judge_at (BIDS_var ''rms_3CX_max'') (BIDS_var ''rms_3CX_speed'') rms_3CX speed res)),
       (\<lambda>res. thenR (u16_scaled frame 138 (1 / 1000)) (\<lambda>rms_4CX.
          judge_at (BIDS_var ''rms_4CX_max'') (BIDS_var ''rms_4CX_speed'') rms_4CX speed res))
     ] res0))"

definition BIDS_data_judge :: "host_clock \<Rightarrow> frame list \<Rightarrow> int \<Rightarrow> error + pyval list" where
  "BIDS_data_judge clk framelist time_offset =
     for_frames (BIDS_frame clk time_offset) (replicate (length BIDS_variables) (Num 0)) framelist"

section \<open>\<^verbatim>\<open>MVDS_data_judge\<close>\<close>

text \<open>
  The three loops with the counters \<^verbatim>\<open>chuandong_cnt\<close> and \<^verbatim>\<open>nochuandong_cnt\<close>
  (and \<^verbatim>\<open>bype_cnt\<close>) carry the counters in the state of the loop, next to the list.
\<close>

definition MVDS_frame :: "host_clock \<Rightarrow> int \<Rightarrow> pyval list \<Rightarrow> frame \<Rightarrow> error + pyval list" where
  "MVDS_frame clk time_offset res0 frame =
     thenR (frame_time_str clk frame time_offset) (\<lambda>formatted_time.
     thenR (u16_round3 frame 78 (1 / 100)) (\<lambda>speed.
     seqR [
       max_at 0 speed,
       (\<lambda>res. thenR (byte_at frame 87) (\<lambda>b. mark_at (b AND 0b00110000 \<noteq> 0) 1 formatted_time res)),
       (\<lambda>res. thenR (byte_at frame 88) (\<lambda>b. mark_at (b \<noteq> 0) 2 formatted_time res)),
       (\<lambda>res. thenR (any_byte frame [137, 148, 149, 150, 151]) (\<lambda>c. mark_at c 3 formatted_time res)),
       (\<lambda>res. thenR (any_byte frame [138, 140, 141, 142, 143]) (\<lambda>c. mark_at c 4 formatted_time res)),
       (\<lambda>res. thenR (any_byte frame [139, 144, 145, 146, 147]) (\<lambda>c. mark_at c 5 formatted_time res)),
       for_range 8 (\<lambda>i res. let mvds_byte = 184 in
          thenR (u8_scaled frame (mvds_byte + i) (1 / 10)) (\<lambda>v.
          mark_at (v < 8 \<or> v > 14) 6 formatted_time res)),
       (\<lambda>res.
          thenR (for_range 48 (\<lambda>i (res, chuandong_cnt, nochuandong_cnt).
                   if i mod 6 = 1 then Inr (res, chuandong_cnt, nochuandong_cnt)
                   else thenR (u8 frame (89 + i)) (\<lambda>zhibiao.
                     if (i div 6) mod 2 = 0 then
                       thenR (judge_at chuandong_cnt (chuandong_cnt + 1) zhibiao speed res) (\<lambda>res.
                       Inr (res, chuandong_cnt + 2, nochuandong_cnt))
                     else
                       thenR (judge_at nochuandong_cnt (nochuandong_cnt + 1) zhibiao speed res) (\<lambda>res.
                       Inr (res, chuandong_cnt, nochuandong_cnt + 2))))
                 (res, 7, 47))
            (\<lambda>(res, chuandong_cnt, nochuandong_cnt). Inr res)),
       (\<lambda>res.
          thenR (for_range 8 (\<lambda>i (res, chuandong_cnt, nochuandong_cnt).
                   thenR (u16_round3 frame (152 + i * 2) (1 / 10)) (\<lambda>val.
                     if i mod 2 = 0 then
                       thenR (judge_at chuandong_cnt (chuandong_cnt + 1) val speed res) (\<lambda>res.
                       Inr (res, chuandong_cnt + 2, nochuandong_cnt))
                     else
                       thenR (judge_at nochuandong_cnt (nochuandong_cnt + 1) val speed res) (\<lambda>res.
                       Inr (res, chuandong_cnt, nochuandong_cnt + 2))))
                 (res, 87, 95))
            (\<lambda>(res, chuandong_cnt, nochuandong_cnt). Inr res)),
       (\<lambda>res.
          thenR (for_range 8 (\<lambda>i (res, chuandong_cnt, nochuandong_cnt, bype_cnt).
                   thenR (u16_round3 frame bype_cnt (1 / 10)) (\<lambda>val.
                     if i mod 2 = 0 then
                       thenR (judge_at chuandong_cnt (chuandong_cnt + 1) val speed res) (\<lambda>res.
                       Inr (res, chuandong_cnt + 2, nochuandong_cnt, bype_cnt + 2))
                     else
                       thenR (judge_at nochuandong_cnt (nochuandong_cnt + 1) val speed res) (\<lambda>res.
                       Inr (res, chuandong_cnt, nochuandong_cnt + 2, bype_cnt + 2))))
                 (res, 103, 111, 168))
            (\<lambda>(res, chuandong_cnt, nochuandong_cnt, bype_cnt). Inr res))
     ] res0))"

definition MVDS_data_judge :: "host_clock \<Rightarrow> frame list \<Rightarrow> int \<Rightarrow> error + pyval list" where
  "MVDS_data_judge clk framelist time_offset =
     for_frames (MVDS_frame clk time_offset) (replicate 119 (Num 0)) framelist"

section \<open>The frame stream reader: \<^verbatim>\<open>read_binary_file\<close>\<close>

text \<open>
  The file is the list of its bytes, opened in binary mode. \<^verbatim>\<open>f.tell()\<close> reads the
  position. \<^verbatim>\<open>f.seek(p)\<close> sets it, also past the end, and raises OSError for a
  negative \<open>p\<close>. \<^verbatim>\<open>f.read(n)\<close> returns the bytes from the position on, at most
  \<open>n\<close> of them, and advances the position by their number; it returns all of them
  for \<open>n = -1\<close> and raises ValueError for \<open>n < -1\<close>.
\<close>

definition file_read :: "byte list \<Rightarrow> nat \<Rightarrow> int \<Rightarrow> error + frame" where
  "file_read file pos n =
     (if n < - 1 then Inl ValueError
      else if n = - 1 then Inr (drop pos file)
      else Inr (take (nat n) (drop pos file)))"

text \<open>
  An entry of the error log is the frame count, the byte offset and the reason that
  the message of the source prints.
\<close>

datatype reason =
    Read_failed
  | Frame_length nat int
  | Time_parse
  | Negative_timestamp int
  | Out_of_range civil

type_synonym diag = "nat \<times> int \<times> reason"

text \<open>
  The body of the \<^verbatim>\<open>try\<close> block for one frame that was read and is not empty:
  the reason of the exception it raises, or whether the frame is appended to the
  results.
\<close>

definition check_frame :: "host_clock \<Rightarrow> int \<Rightarrow> int \<Rightarrow> int \<Rightarrow> int \<Rightarrow> frame \<Rightarrow> reason + bool" where
  "check_frame clk time_offset frame_size start_timestamp end_timestamp frame_data =
     (if int (length frame_data) \<noteq> frame_size
      then Inl (Frame_length (length frame_data) frame_size)
      else case extract_frame_time clk frame_data time_offset of
        Inl e \<Rightarrow> Inl Time_parse
      | Inr timestamp \<Rightarrow>
          (let local_time = localtime clk timestamp
           in if timestamp < 0 then Inl (Negative_timestamp timestamp)
              else if year local_time < 2000 \<or> year local_time > 2100 then Inl (Out_of_range local_time)
              else Inr (start_timestamp \<le> timestamp \<and> timestamp \<le> end_timestamp)))"

text \<open>
  The \<^verbatim>\<open>while True\<close> loop. Its state is the position in the file, the frame count,
  the results and the error log. The handler of the \<^verbatim>\<open>except\<close> clause appends to the
  log and seeks to \<^verbatim>\<open>frame_start + frame_size\<close>; it does not touch the frame
  count. The seek of the handler is outside every \<^verbatim>\<open>try\<close>: when it raises, the
  exception leaves the function.
\<close>

function read_loop ::
  "host_clock \<Rightarrow> byte list \<Rightarrow> int \<Rightarrow> int \<Rightarrow> int \<Rightarrow> int \<Rightarrow> nat \<Rightarrow> nat \<Rightarrow> frame list \<Rightarrow> diag list
   \<Rightarrow> error + frame list \<times> diag list" where
  "read_loop clk file time_offset start_timestamp end_timestamp frame_size pos frame_count results error_log =
     (case file_read file pos frame_size of
        Inl e \<Rightarrow>
          (if int pos + frame_size < 0 then Inl OSError
           else read_loop clk file time_offset start_timestamp end_timestamp frame_size
                  (nat (int pos + frame_size)) frame_count results
                  (error_log @ [(frame_count, int pos - 16, Read_failed)]))
      | Inr frame_data \<Rightarrow>
          (if frame_data = [] then Inr (results, error_log)
           else case check_frame clk time_offset frame_size start_timestamp end_timestamp frame_data of
             Inr keep \<Rightarrow>
               read_loop clk file time_offset start_timestamp end_timestamp frame_size
                 (pos + length frame_data) (frame_count + 1)
                 (if keep then results @ [frame_data] else results) error_log
           | Inl why \<Rightarrow>
               (if int pos + frame_size < 0 then Inl OSError
                else read_loop clk file time_offset start_timestamp end_timestamp frame_size
                       (nat (int pos + frame_size)) frame_count results
                       (error_log @ [(frame_count, int pos - 16, why)]))))"
  by pat_completeness auto
termination
proof (relation "measure (\<lambda>(clk, file, time_offset, start_timestamp, end_timestamp, frame_size, pos, rest).
        if 0 < frame_size then length file - pos else pos)", goal_cases)
  case 1
  then show ?case by simp
next
  case (2 clk bytes time_offset start_timestamp end_timestamp frame_size pos frame_count results error_log e)
  then show ?case by (auto simp: file_read_def split: if_splits)
next
  case (3 clk bytes time_offset start_timestamp end_timestamp frame_size pos frame_count results error_log
      frame_data why)
  then show ?case by (auto simp: file_read_def split: if_splits)
next
  case (4 clk bytes time_offset start_timestamp end_timestamp frame_size pos frame_count results error_log
      frame_data keep)
  then have "int (length frame_data) = frame_size"
    by (auto simp: check_frame_def split: if_splits)
  moreover have "length frame_data \<le> length bytes - pos"
    using 4 by (auto simp: file_read_def split: if_splits)
  moreover have "0 < length frame_data" using 4 by simp
  ultimately have "0 < frame_size" "length bytes - (pos + length frame_data) < length bytes - pos"
    by linarith+
  then show ?case by simp
qed

text \<open>
  The function parses the two time strings, opens the file and seeks to the frame
  offset before the loop. It returns the results; the error log is printed after the
  loop, and the model returns it next to the results.
\<close>

definition read_binary_file ::
  "host_clock \<Rightarrow> byte list \<Rightarrow> int \<Rightarrow> int \<Rightarrow> string \<Rightarrow> string \<Rightarrow> int \<Rightarrow> error + frame list \<times> diag list" where
  "read_binary_file clk file frame_offset time_offset start_time end_time frame_size =
     thenR (strptime clk start_time) (\<lambda>start_dt.
     thenR (strptime clk end_time) (\<lambda>end_dt.
       (let start_timestamp = mktime clk start_dt;
            end_timestamp = mktime clk end_dt
        in if frame_offset < 0 then Inl OSError
           else read_loop clk file time_offset start_timestamp end_timestamp frame_size
                  (nat frame_offset) 0 [] [])))"

section \<open>One data file of \<^verbatim>\<open>DataCheck.data_process\<close>\<close>

text \<open>
  The body of the loop over the merged data files of one configured object. What the
  body does besides computing is recorded as a trace: the log line of an empty result,
  the call of a judge function, and the saving of its result.
\<close>

datatype event =
    Log_empty string string
  | Call_judge string "frame list"
  | Save_result "pyval list"

definition process_file ::
  "host_clock \<Rightarrow> string \<Rightarrow> byte list \<Rightarrow> int \<Rightarrow> int \<Rightarrow> string \<Rightarrow> string \<Rightarrow> int \<Rightarrow> error + event list" where
  "process_file clk obj1 file frameoffset timeoffset starttime endtime framesize =
     thenR (read_binary_file clk file frameoffset timeoffset starttime endtime framesize) (\<lambda>read.
       (let frame_data = fst read
        in if frame_data = [] then Inr [Log_empty starttime endtime]
           else if obj1 = ''WNDS'' then
             thenR (WNDS_data_judge clk frame_data timeoffset) (\<lambda>result.
             Inr [Call_judge ''WNDS'' frame_data, Save_result result])
           else if obj1 = ''BIDS'' then
             thenR (BIDS_data_judge clk frame_data timeoffset) (\<lambda>result.
             Inr [Call_judge ''BIDS'' frame_data, Save_result result])
           else if obj1 = ''GVDS'' then
             thenR (GVDS_data_judge clk frame_data timeoffset) (\<lambda>result.
             Inr [Call_judge ''GVDS'' frame_data, Save_result result])
           else if obj1 = ''MVDS'' then
             thenR (MVDS_data_judge clk frame_data timeoffset) (\<lambda>result.
             Inr [Call_judge ''MVDS'' frame_data, Save_result result])
           else Inr []))"

section \<open>The reductions as the specification words them\<close>

text \<open>
  The specification describes each profile as a table of channels and four kinds of
  reduction. These definitions follow its words; the theorems below compare them with
  the loops of the source.

  MaxWithSpeedTiebreak on an accumulator \<open>(best_value, assoc_speed)\<close>: if the value
  exceeds the best value, both are replaced; else if it equals the best value and the
  speed exceeds the recorded speed, only the speed is updated. The value stored is a
  parameter of its own, \<open>w\<close>, because two blocks of the source store another field
  than the one they compare; for every other channel \<open>w = v\<close>.
\<close>

definition judge :: "rat \<Rightarrow> rat \<Rightarrow> rat \<Rightarrow> rat \<times> rat \<Rightarrow> rat \<times> rat" where
  "judge v w speed acc =
     (if v > fst acc then (w, speed)
      else if v = fst acc \<and> speed > snd acc then (fst acc, speed)
      else acc)"

text \<open>MaxAmplitudeFrequencySpeed on an accumulator \<open>(amplitude, frequency, speed)\<close>.\<close>

definition judge3 :: "rat \<Rightarrow> rat \<Rightarrow> rat \<Rightarrow> rat \<times> rat \<times> rat \<Rightarrow> rat \<times> rat \<times> rat" where
  "judge3 amp fre speed acc =
     (case acc of (best_amp, best_fre, best_speed) \<Rightarrow>
        if amp > best_amp then (amp, fre, speed)
        else if amp = best_amp \<and> fre > best_fre then (best_amp, fre, speed)
        else if amp = best_amp \<and> fre = best_fre \<and> speed > best_speed then (best_amp, best_fre, speed)
        else acc)"

text \<open>
  EventTimestamp: the formatted time of the last frame, in stream order, that
  satisfies the condition, and the value before the run (the integer 0) when no frame
  does.
\<close>

definition last_event :: "(frame \<Rightarrow> bool) \<Rightarrow> (frame \<Rightarrow> string) \<Rightarrow> frame list \<Rightarrow> pyval \<Rightarrow> pyval" where
  "last_event cond tm frames before =
     (case filter cond frames of [] \<Rightarrow> before | f # fs \<Rightarrow> Str (tm (last (f # fs))))"

fun is_num :: "pyval \<Rightarrow> bool" where
  "is_num (Num x) = True"
| "is_num (Str s) = False"

fun num_of :: "pyval \<Rightarrow> rat" where
  "num_of (Num x) = x"
| "num_of (Str s) = 0"

text \<open>
  A channel names its slots of the summary and how its values are decoded from a
  frame: the running maximum of the speed; an event with its condition; a value with
  its speed (the decoders of the value compared and of the value stored); an amplitude
  with its frequency and speed.
\<close>

datatype chan =
    Max_ch nat
  | Mark_ch nat "frame \<Rightarrow> bool"
  | Judge_ch nat nat "frame \<Rightarrow> rat" "frame \<Rightarrow> rat"
  | Judge3_ch nat nat nat "frame \<Rightarrow> rat" "frame \<Rightarrow> rat"

fun ch_slots :: "chan \<Rightarrow> nat list" where
  "ch_slots (Max_ch k) = [k]"
| "ch_slots (Mark_ch k c) = [k]"
| "ch_slots (Judge_ch kmax kspeed dv dw) = [kmax, kspeed]"
| "ch_slots (Judge3_ch kamp kfre kspeed da df) = [kamp, kfre, kspeed]"

fun ch_nums :: "chan \<Rightarrow> nat list" where
  "ch_nums (Mark_ch k c) = []"
| "ch_nums ch = ch_slots ch"

text \<open>One frame through one channel, with the blocks of the source.\<close>

fun run_chan :: "(frame \<Rightarrow> rat) \<Rightarrow> string \<Rightarrow> frame \<Rightarrow> chan \<Rightarrow> pyval list \<Rightarrow> error + pyval list" where
  "run_chan spd ft frame (Max_ch k) = max_at k (spd frame)"
| "run_chan spd ft frame (Mark_ch k c) = mark_at (c frame) k ft"
| "run_chan spd ft frame (Judge_ch kmax kspeed dv dw) =
     judge_store_at kmax kspeed (dv frame) (Inr (dw frame)) (spd frame)"
| "run_chan spd ft frame (Judge3_ch kamp kfre kspeed da df) =
     judge3_at kamp kfre kspeed (da frame) (df frame) (spd frame)"

text \<open>
  What a channel's slots hold after a run over \<open>frames\<close> that started from \<open>res\<close>:
  the fold of the channel's reduction over the frames, in stream order.
\<close>

fun ch_after ::
  "(frame \<Rightarrow> rat) \<Rightarrow> (frame \<Rightarrow> string) \<Rightarrow> frame list \<Rightarrow> pyval list \<Rightarrow> pyval list \<Rightarrow> chan \<Rightarrow> bool" where
  "ch_after spd tm frames res out (Max_ch k) =
     (out ! k = Num (foldl (\<lambda>m f. max (spd f) m) (num_of (res ! k)) frames))"
| "ch_after spd tm frames res out (Mark_ch k c) =
     (out ! k = foldl (\<lambda>v f. if c f then Str (tm f) else v) (res ! k) frames)"
| "ch_after spd tm frames res out (Judge_ch kmax kspeed dv dw) =
     ((out ! kmax, out ! kspeed) =
        map_prod Num Num
          (foldl (\<lambda>acc f. judge (dv f) (dw f) (spd f) acc)
             (num_of (res ! kmax), num_of (res ! kspeed)) frames))"
| "ch_after spd tm frames res out (Judge3_ch kamp kfre kspeed da df) =
     ((out ! kamp, out ! kfre, out ! kspeed) =
        (case foldl (\<lambda>acc f. judge3 (da f) (df f) (spd f) acc)
                (num_of (res ! kamp), num_of (res ! kfre), num_of (res ! kspeed)) frames
         of (a, b, c) \<Rightarrow> (Num a, Num b, Num c)))"

text \<open>The slots of a table are pairwise distinct and lie inside a summary of \<open>n\<close> slots.\<close>

definition table_ok :: "nat \<Rightarrow> chan list \<Rightarrow> bool" where
  "table_ok n chans =
     (distinct (concat (map ch_slots chans)) \<and> list_all (\<lambda>k. k < n) (concat (map ch_slots chans)))"

text \<open>A list of slots that rises strictly inside \<open>lo..<hi\<close>.\<close>

fun rising :: "nat \<Rightarrow> nat \<Rightarrow> nat list \<Rightarrow> bool" where
  "rising lo hi [] = True"
| "rising lo hi (x # xs) = (lo \<le> x \<and> x < hi \<and> rising (x + 1) hi xs)"

text \<open>The raw fields of a frame, read where the frame is long enough.\<close>

definition raw8 :: "frame \<Rightarrow> nat \<Rightarrow> rat" where
  "raw8 frame i = of_nat (unat (frame ! i))"

definition raw16 :: "frame \<Rightarrow> nat \<Rightarrow> rat" where
  "raw16 frame a = of_nat (unat (frame ! a) * 256 + unat (frame ! (a + 1)))"

definition any_nz :: "frame \<Rightarrow> nat list \<Rightarrow> bool" where
  "any_nz frame is = list_ex (\<lambda>i. frame ! i \<noteq> 0) is"

text \<open>The formatted time of a frame whose timestamp decodes.\<close>

definition time_of :: "host_clock \<Rightarrow> int \<Rightarrow> frame \<Rightarrow> string" where
  "time_of clk time_offset frame =
     (case frame_time_str clk frame time_offset of Inr ft \<Rightarrow> ft | Inl e \<Rightarrow> [])"

text \<open>
  What the claims say of a summary \<open>out\<close>. Every event channel of a table holds the
  formatted time of the last frame that satisfied its condition, or the integer 0.
  Every value-with-speed channel whose compared value is 0 in every frame holds the
  best value 0 and the greatest speed of the frames. Every amplitude channel holds the
  fold of the three-key reduction, started from \<open>(0, 0, 0)\<close>.
\<close>

definition events_hold :: "(frame \<Rightarrow> string) \<Rightarrow> frame list \<Rightarrow> chan list \<Rightarrow> pyval list \<Rightarrow> bool" where
  "events_hold tm frames chans out =
     (\<forall>k c. Mark_ch k c \<in> set chans \<longrightarrow> out ! k = last_event c tm frames (Num 0))"

definition zero_channels_hold :: "(frame \<Rightarrow> rat) \<Rightarrow> frame list \<Rightarrow> chan list \<Rightarrow> pyval list \<Rightarrow> bool" where
  "zero_channels_hold spd frames chans out =
     (\<forall>kmax kspeed dv dw. Judge_ch kmax kspeed dv dw \<in> set chans \<and> (\<forall>f\<in>set frames. dv f = 0) \<longrightarrow>
        out ! kmax = Num 0 \<and> out ! kspeed = Num (Max (spd ` set frames)))"

definition amplitudes_hold :: "(frame \<Rightarrow> rat) \<Rightarrow> frame list \<Rightarrow> chan list \<Rightarrow> pyval list \<Rightarrow> bool" where
  "amplitudes_hold spd frames chans out =
     (\<forall>kamp kfre kspeed da df. Judge3_ch kamp kfre kspeed da df \<in> set chans \<longrightarrow>
        (out ! kamp, out ! kfre, out ! kspeed) =
          (case foldl (\<lambda>acc f. judge3 (da f) (df f) (spd f) acc) (0, 0, 0) frames
           of (a, b, c) \<Rightarrow> (Num a, Num b, Num c)))"

definition WNDS_speed :: "frame \<Rightarrow> rat" where
  "WNDS_speed frame = raw16 frame 78 * (1 / 100)"

definition WNDS_channels :: "chan list" where
  "WNDS_channels =
     [Max_ch (WNDS_var ''speed_max''),
      Mark_ch (WNDS_var ''sharedata_comm'') (\<lambda>f. f ! 87 AND BIT4_MASK \<noteq> 0 \<or> f ! 87 AND BIT5_MASK \<noteq> 0),
      Mark_ch (WNDS_var ''sensor_check'') (\<lambda>f. f ! 90 AND BIT0_MASK \<noteq> 0 \<or> f ! 90 AND BIT1_MASK \<noteq> 0),
      Mark_ch (WNDS_var ''sensor_realtime'') (\<lambda>f. f ! 90 AND BIT2_MASK \<noteq> 0 \<or> f ! 90 AND BIT3_MASK \<noteq> 0),
      Mark_ch (WNDS_var ''stable_HX_warn'') (\<lambda>f. f ! 88 AND BIT0_MASK \<noteq> 0),
      Mark_ch (WNDS_var ''stable_HX_alarm'') (\<lambda>f. f ! 88 AND BIT4_MASK \<noteq> 0),
      Mark_ch (WNDS_var ''stable_CX_warn'') (\<lambda>f. f ! 88 AND BIT1_MASK \<noteq> 0),
      Mark_ch (WNDS_var ''stable_CX_alarm'') (\<lambda>f. f ! 88 AND BIT5_MASK \<noteq> 0),
      Mark_ch (WNDS_var ''douche_warn'') (\<lambda>f. f ! 89 AND BIT1_MASK \<noteq> 0),
      Mark_ch (WNDS_var ''douche_alarm'') (\<lambda>f. f ! 89 AND BIT5_MASK \<noteq> 0),
      Mark_ch (WNDS_var ''shake_warn'') (\<lambda>f. f ! 89 AND BIT0_MASK \<noteq> 0),
      Mark_ch (WNDS_var ''shake_alarm'') (\<lambda>f. f ! 89 AND BIT4_MASK \<noteq> 0),
      Judge_ch (WNDS_var ''stable_1HX_max'') (WNDS_var ''stable_1HX_speed'')
         (\<lambda>f. raw16 f 105 * (1 / 100)) (\<lambda>f. raw16 f 105 * (1 / 100)),
      Judge_ch (WNDS_var ''stable_2HX_max'') (WNDS_var ''stable_2HX_speed'')
         (\<lambda>f. raw16 f 107 * (1 / 100)) (\<lambda>f. raw16 f 107 * (1 / 100)),
      Judge_ch (WNDS_var ''stable_1CX_max'') (WNDS_var ''stable_1CX_speed'')
         (\<lambda>f. raw16 f 109 * (1 / 100)) (\<lambda>f. raw16 f 109 * (1 / 100)),
      Judge_ch (WNDS_var ''stable_2CX_max'') (WNDS_var ''stable_2CX_speed'')
         (\<lambda>f. raw16 f 111 * (1 / 100)) (\<lambda>f. raw16 f 111 * (1 / 100)),
      Judge_ch (WNDS_var ''peak_0p2_3_1HX_max'') (WNDS_var ''peak_0p2_3_1HX_speed'')
         (\<lambda>f. raw8 f 93 * (1 / 1000)) (\<lambda>f. raw8 f 93 * (1 / 1000)),
      Judge_ch (WNDS_var ''peak_0p2_3_2HX_max'') (WNDS_var ''peak_0p2_3_2HX_speed'')
         (\<lambda>f. raw8 f 94 * (1 / 1000)) (\<lambda>f. raw8 f 94 * (1 / 1000)),
      Judge_ch (WNDS_var ''rms_5_13_1HX_max'') (WNDS_var ''rms_5_13_1HX_speed'')
         (\<lambda>f. raw8 f 95 * (1 / 1000)) (\<lambda>f. raw8 f 95 * (1 / 1000)),
      Judge_ch (WNDS_var ''rms_5_13_2HX_max'') (WNDS_var ''rms_5_13_2HX_speed'')
         (\<lambda>f. raw8 f 96 * (1 / 1000)) (\<lambda>f. raw8 f 96 * (1 / 1000)),
      Judge_ch (WNDS_var ''rms_5_13_1CX_max'') (WNDS_var ''rms_5_13_1CX_speed'')
         (\<lambda>f. raw8 f 97 * (1 / 1000)) (\<lambda>f. raw8 f 97 * (1 / 1000)),
      Judge_ch (WNDS_var ''rms_5_13_2CX_max'') (WNDS_var ''rms_5_13_2CX_speed'')
         (\<lambda>f. raw8 f 98 * (1 / 1000)) (\<lambda>f. raw8 f 98 * (1 / 1000)),
      Judge3_ch (WNDS_var ''main_fre_amp_1CX_max'') (WNDS_var ''main_fre_1CX'') (WNDS_var ''main_fre_amp_1CX_speed'')
         (\<lambda>f. raw8 f 99 * (1 / 1000)) (\<lambda>f. raw16 f 101 * (1 / 10)),
      Judge3_ch (WNDS_var ''main_fre_amp_2CX_max'') (WNDS_var ''main_fre_2CX'') (WNDS_var ''main_fre_amp_2CX_speed'')
         (\<lambda>f. raw8 f 100 * (1 / 1000)) (\<lambda>f. raw16 f 103 * (1 / 10)),
      Judge_ch (WNDS_var ''acc_max_1HX_max'') (WNDS_var ''acc_max_1HX_speed'')
         (\<lambda>f. raw16 f 117 * (1 / 1000)) (\<lambda>f. raw16 f 117 * (1 / 1000)),
      Judge_ch (WNDS_var ''acc_max_2HX_max'') (WNDS_var ''acc_max_2HX_speed'')
         (\<lambda>f. raw16 f 119 * (1 / 1000)) (\<lambda>f. raw16 f 119 * (1 / 1000)),
      Judge_ch (WNDS_var ''acc_valid_1HX_max'') (WNDS_var ''acc_valid_1HX_speed'')
         (\<lambda>f. raw16 f 129 * (1 / 1000)) (\<lambda>f. raw16 f 129 * (1 / 1000)),
      Judge_ch (WNDS_var ''acc_valid_2HX_max'') (WNDS_var ''acc_valid_2HX_speed'')
         (\<lambda>f. raw16 f 131 * (1 / 1000)) (\<lambda>f. raw16 f 131 * (1 / 1000)),
      Judge_ch (WNDS_var ''acc_max_1CX_max'') (WNDS_var ''acc_max_1CX_speed'')
         (\<lambda>f. raw16 f 121 * (1 / 1000)) (\<lambda>f. raw16 f 121 * (1 / 1000)),
      Judge_ch (WNDS_var ''acc_max_2CX_max'') (WNDS_var ''acc_max_2CX_speed'')
         (\<lambda>f. raw16 f 123 * (1 / 1000)) (\<lambda>f. raw16 f 123 * (1 / 1000)),
      Judge_ch (WNDS_var ''acc_valid_1CX_max'') (WNDS_var ''acc_valid_1CX_speed'')
         (\<lambda>f. raw16 f 133 * (1 / 1000)) (\<lambda>f. raw16 f 133 * (1 / 1000)),
      Judge_ch (WNDS_var ''acc_valid_2CX_max'') (WNDS_var ''acc_valid_2CX_speed'')
         (\<lambda>f. raw16 f 135 * (1 / 1000)) (\<lambda>f. raw16 f 135 * (1 / 1000))]"

definition BIDS_speed :: "frame \<Rightarrow> rat" where
  "BIDS_speed frame = raw16 frame 78 * (1 / 100)"

definition BIDS_channels :: "chan list" where
  "BIDS_channels =
     [Max_ch (BIDS_var ''speed_max''),
      Mark_ch (BIDS_var ''sharedata_comm'') (\<lambda>f. f ! 87 AND BIT4_MASK \<noteq> 0 \<or> f ! 87 AND BIT5_MASK \<noteq> 0),
      Mark_ch (BIDS_var ''sensor_check'') (\<lambda>f. f ! 89 AND 0b00001111 \<noteq> 0),
      Mark_ch (BIDS_var ''sensor_realtime'') (\<lambda>f. f ! 89 AND 0b11110000 \<noteq> 0),
      Mark_ch (BIDS_var ''offset_fault'') (\<lambda>f. f ! 90 AND 0b00001111 \<noteq> 0),
      Mark_ch (BIDS_var ''bogie_warn'') (\<lambda>f. f ! 91 AND 0b00001111 \<noteq> 0),
      Mark_ch (BIDS_var ''bogie_alarm'') (\<lambda>f. f ! 91 AND 0b11110000 \<noteq> 0),
      Judge_ch (BIDS_var ''min_1HX_max'') (BIDS_var ''min_1HX_speed'')
         (\<lambda>f. raw16 f 92 * (1 / 1000)) (\<lambda>f. raw16 f 92 * (1 / 1000)),
      Judge_ch (BIDS_var ''min_2HX_max'') (BIDS_var ''min_2HX_speed'')
         (\<lambda>f. raw16 f 94 * (1 / 1000)) (\<lambda>f. raw16 f 94 * (1 / 1000)),
      Judge_ch (BIDS_var ''min_3HX_max'') (BIDS_var ''min_3HX_speed'')
         (\<lambda>f. raw16 f 96 * (1 / 1000)) (\<lambda>f. raw16 f 96 * (1 / 1000)),
      Judge_ch (BIDS_var ''min_4HX_max'') (BIDS_var ''min_4HX_speed'')
         (\<lambda>f. raw16 f 98 * (1 / 1000)) (\<lambda>f. raw16 f 98 * (1 / 1000)),
      Judge_ch (BIDS_var ''mean_1HX_max'') (BIDS_var ''mean_1HX_speed'')
         (\<lambda>f. raw16 f 100 * (1 / 1000)) (\<lambda>f. raw16 f 100 * (1 / 1000)),
      Judge_ch (BIDS_var ''mean_2HX_max'') (BIDS_var ''mean_2HX_speed'')
         (\<lambda>f. raw16 f 102 * (1 / 1000)) (\<lambda>f. raw16 f 102 * (1 / 1000)),
      Judge_ch (BIDS_var ''mean_3HX_max'') (BIDS_var ''mean_3HX_speed'')
         (\<lambda>f. raw16 f 104 * (1 / 1000)) (\<lambda>f. raw16 f 104 * (1 / 1000)),
      Judge_ch (BIDS_var ''mean_4HX_max'') (BIDS_var ''mean_4HX_speed'')
         (\<lambda>f. raw16 f 106 * (1 / 1000)) (\<lambda>f. raw16 f 106 * (1 / 1000)),
      Judge_ch (BIDS_var ''max_1HX_max'') (BIDS_var ''max_1HX_speed'')
         (\<lambda>f. raw16 f 108 * (1 / 1000)) (\<lambda>f. raw16 f 108 * (1 / 1000)),
      Judge_ch (BIDS_var ''max_2HX_max'') (BIDS_var ''max_2HX_speed'')
         (\<lambda>f. raw16 f 110 * (1 / 1000)) (\<lambda>f. raw16 f 110 * (1 / 1000)),
      Judge_ch (BIDS_var ''max_3HX_max'') (BIDS_var ''max_3HX_speed'')
         (\<lambda>f. raw16 f 112 * (1 / 1000)) (\<lambda>f. raw16 f 112 * (1 / 1000)),
      Judge_ch (BIDS_var ''max_4HX_max'') (BIDS_var ''max_4HX_speed'')
         (\<lambda>f. raw16 f 114 * (1 / 1000)) (\<lambda>f. raw16 f 114 * (1 / 1000)),
      Judge_ch (BIDS_var ''rms_1HX_max'') (BIDS_var ''rms_1HX_speed'')
         (\<lambda>f. raw16 f 116 * (1 / 1000)) (\<lambda>f. raw16 f 116 * (1 / 1000)),
      Judge_ch (BIDS_var ''rms_2HX_max'') (BIDS_var ''rms_2HX_speed'')
         (\<lambda>f. raw16 f 118 * (1 / 1000)) (\<lambda>f. raw16 f 118 * (1 / 1000)),
      Judge_ch (BIDS_var ''rms_3HX_max'') (BIDS_var ''rms_3HX_speed'')
         (\<lambda>f. raw16 f 120 * (1 / 1000)) (\<lambda>f. raw16 f 120 * (1 / 1000)),
      Judge_ch (BIDS_var ''rms_4HX_max'') (BIDS_var ''rms_4HX_speed'')
         (\<lambda>f. raw16 f 122 * (1 / 1000)) (\<lambda>f. raw16 f 122 * (1 / 1000)),
      Judge_ch (BIDS_var ''max_1CX_max'') (BIDS_var ''max_1CX_speed'')
         (\<lambda>f. raw16 f 124 * (1 / 1000)) (\<lambda>f. raw16 f 124 * (1 / 1000)),
      Judge_ch (BIDS_var ''max_2CX_max'') (BIDS_var ''max_2CX_speed'')
         (\<lambda>f. raw16 f 126 * (1 / 1000)) (\<lambda>f. raw16 f 126 * (1 / 1000)),
      Judge_ch (BIDS_var ''max_3CX_max'') (BIDS_var ''max_3CX_speed'')
         (\<lambda>f. raw16 f 128 * (1 / 1000)) (\<lambda>f. raw16 f 128 * (1 / 1000)),
      Judge_ch (BIDS_var ''max_4CX_max'') (BIDS_var ''max_4CX_speed'')
         (\<lambda>f. raw16 f 130 * (1 / 1000)) (\<lambda>f. raw16 f 130 * (1 / 1000)),
      Judge_ch (BIDS_var ''rms_1CX_max'') (BIDS_var ''rms_1CX_speed'')
         (\<lambda>f. raw16 f 132 * (1 / 1000)) (\<lambda>f. raw16 f 132 * (1 / 1000)),
      Judge_ch (BIDS_var ''rms_2CX_max'') (BIDS_var ''rms_2CX_speed'')
         (\<lambda>f. raw16 f 134 * (1 / 1000)) (\<lambda>f. raw16 f 134 * (1 / 1000)),
      Judge_ch (BIDS_var ''rms_3CX_max'') (BIDS_var ''rms_3CX_speed'')
         (\<lambda>f. raw16 f 136 * (1 / 1000)) (\<lambda>f. raw16 f 136 * (1 / 1000)),
      Judge_ch (BIDS_var ''rms_4CX_max'') (BIDS_var ''rms_4CX_speed'')
         (\<lambda>f. raw16 f 138 * (1 / 1000)) (\<lambda>f. raw16 f 138 * (1 / 1000))]"

text \<open>The channels of GVDS\_data\_judge, in the order in which its loop body treats them.\<close>

definition GVDS_speed :: "frame \<Rightarrow> rat" where
  "GVDS_speed frame = raw16 frame 78 * (1 / 100)"

definition GVDS_channels :: "chan list" where
  "GVDS_channels =
     [Max_ch 0,
      Mark_ch 1 (\<lambda>f. f ! 87 AND 0b00110000 \<noteq> 0),
      Mark_ch 2 (\<lambda>f. any_nz f [88, 89]),
      Mark_ch 3 (\<lambda>f. any_nz f [218, 221, 232, 233, 234, 235, 238, 247, 248, 249, 250, 253]),
      Mark_ch 4 (\<lambda>f. any_nz f [219, 222, 224, 225, 226, 227, 236, 239, 240, 241, 242, 251]),
      Mark_ch 5 (\<lambda>f. any_nz f [220, 223, 228, 229, 230, 231, 237, 243, 244, 245, 246, 252]),
      Mark_ch 6 (\<lambda>f. list_ex (\<lambda>i. raw8 f (286 + i) * (1 / 10) < 8 \<or> raw8 f (286 + i) * (1 / 10) > 14) [0..<16])]
     @ concat (map (\<lambda>(fb, rb, st).
         map (\<lambda>i. Judge_ch (rb + i * 2) (rb + 1 + i * 2) (\<lambda>f. raw8 f (fb + i)) (\<lambda>f. raw8 f (fb + i * st))) [0..<4])
       [(92, 7, 1), (104, 15, 1), (116, 23, 1), (128, 31, 1), (140, 39, 1), (152, 47, 1), (164, 55, 1),
        (176, 63, 2), (98, 71, 1), (110, 79, 1), (122, 87, 1), (134, 95, 1), (146, 103, 2),
        (158, 111, 1), (170, 119, 1), (182, 127, 1)])
     @ concat (map (\<lambda>(fb, rb).
         map (\<lambda>i. Judge_ch (rb + i * 2) (rb + 1 + i * 2) (\<lambda>f. raw16 f (fb + i * 2) * (1 / 10))
                (\<lambda>f. raw16 f (fb + i * 2) * (1 / 10))) [0..<4])
       [(186, 135), (202, 143), (194, 151), (210, 159), (254, 167), (270, 175), (262, 183), (278, 191)])"

text \<open>The channels of MVDS\_data\_judge, in the order in which its loop body treats them.\<close>

definition MVDS_speed :: "frame \<Rightarrow> rat" where
  "MVDS_speed frame = round3 (raw16 frame 78 * (1 / 100))"

definition MVDS_channels :: "chan list" where
  "MVDS_channels =
     [Max_ch 0,
      Mark_ch 1 (\<lambda>f. f ! 87 AND 0b00110000 \<noteq> 0),
      Mark_ch 2 (\<lambda>f. f ! 88 \<noteq> 0),
      Mark_ch 3 (\<lambda>f. any_nz f [137, 148, 149, 150, 151]),
      Mark_ch 4 (\<lambda>f. any_nz f [138, 140, 141, 142, 143]),
      Mark_ch 5 (\<lambda>f. any_nz f [139, 144, 145, 146, 147]),
      Mark_ch 6 (\<lambda>f. list_ex (\<lambda>i. raw8 f (184 + i) * (1 / 10) < 8 \<or> raw8 f (184 + i) * (1 / 10) > 14) [0..<8])]
     @ map (\<lambda>(k, a). Judge_ch k (k + 1) (\<lambda>f. raw8 f a) (\<lambda>f. raw8 f a))
       [(7, 89), (9, 91), (11, 92), (13, 93), (15, 94), (47, 95),
        (49, 97), (51, 98), (53, 99), (55, 100), (17, 101), (19, 103),
        (21, 104), (23, 105), (25, 106), (57, 107), (59, 109), (61, 110),
        (63, 111), (65, 112), (27, 113), (29, 115), (31, 116), (33, 117),
        (35, 118), (67, 119), (69, 121), (71, 122), (73, 123), (75, 124),
        (37, 125), (39, 127), (41, 128), (43, 129), (45, 130), (77, 131),
        (79, 133), (81, 134), (83, 135), (85, 136)]
     @ map (\<lambda>(k, a). Judge_ch k (k + 1) (\<lambda>f. round3 (raw16 f a * (1 / 10))) (\<lambda>f. round3 (raw16 f a * (1 / 10))))
       [(87, 152), (95, 154), (89, 156), (97, 158), (91, 160), (99, 162),
        (93, 164), (101, 166), (103, 168), (111, 170), (105, 172), (113, 174),
        (107, 176), (115, 178), (109, 180), (117, 182)]"

section \<open>The slots of a file, as the specification describes the scan\<close>

text \<open>
  With a frame size \<open>n > 0\<close> the scan reads the source in slots of \<open>n\<close> bytes from
  the frame offset on, the last slot being shorter when the bytes run out. A slot is
  sane when it has the full size, its timestamp decodes, the epoch value is not
  negative and the year lies in 2000..2100; a sane slot is emitted when its timestamp
  lies in the window, both bounds included.
\<close>

function slots_from :: "byte list \<Rightarrow> nat \<Rightarrow> nat \<Rightarrow> (nat \<times> frame) list" where
  "slots_from file n pos =
     (if take n (drop pos file) = [] then []
      else (pos, take n (drop pos file)) # slots_from file n (pos + n))"
  by pat_completeness auto
termination
  by (relation "measure (\<lambda>(file, n, pos). length file - pos)") auto

definition sane :: "host_clock \<Rightarrow> int \<Rightarrow> nat \<Rightarrow> frame \<Rightarrow> bool" where
  "sane clk time_offset n d =
     (length d = n \<and>
      (case extract_frame_time clk d time_offset of
         Inl e \<Rightarrow> False
       | Inr t \<Rightarrow> 0 \<le> t \<and> 2000 \<le> year (localtime clk t) \<and> year (localtime clk t) \<le> 2100))"

definition in_window :: "host_clock \<Rightarrow> int \<Rightarrow> int \<Rightarrow> int \<Rightarrow> frame \<Rightarrow> bool" where
  "in_window clk time_offset start_timestamp end_timestamp d =
     (case extract_frame_time clk d time_offset of
        Inl e \<Rightarrow> False
      | Inr t \<Rightarrow> start_timestamp \<le> t \<and> t \<le> end_timestamp)"

text \<open>
  The error log that the scan writes for a list of slots: one entry for each slot that
  is not sane, with the count that the source prints, which advances on the sane slots
  only, and the slot's position less the 16 bytes of the file header.
\<close>

fun log_of :: "host_clock \<Rightarrow> int \<Rightarrow> nat \<Rightarrow> nat \<Rightarrow> (nat \<times> frame) list \<Rightarrow> diag list" where
  "log_of clk time_offset n cnt [] = []"
| "log_of clk time_offset n cnt ((p, d) # rest) =
     (case check_frame clk time_offset (int n) 0 0 d of
        Inr keep \<Rightarrow> log_of clk time_offset n (cnt + 1) rest
      | Inl why \<Rightarrow> (cnt, int p - 16, why) # log_of clk time_offset n cnt rest)"

section \<open>Sample data for the worked examples\<close>

text \<open>
  A frame of \<open>n\<close> zero bytes with some bytes set, and a frame stamped with a time of
  15 March 2025 in its first six bytes (a time offset of 0).
\<close>

definition frame_with :: "nat \<Rightarrow> (nat \<times> byte) list \<Rightarrow> frame" where
  "frame_with n kvs = foldl (\<lambda>f (i, b). f[i := b]) (replicate n 0) kvs"

definition stamped :: "nat \<Rightarrow> byte \<Rightarrow> (nat \<times> byte) list \<Rightarrow> frame" where
  "stamped n sec kvs = frame_with n ([(0, 25), (1, 3), (2, 15), (3, 10), (4, 30), (5, sec)] @ kvs)"

text \<open>A frame whose last three and first three bytes hold a time.\<close>

definition wrap_frame :: frame where
  "wrap_frame = frame_with 255 [(252, 25), (253, 3), (254, 15), (0, 10), (1, 30), (2, 7)]"

text \<open>A frame's timestamp decodes at the time offset.\<close>

definition decodable :: "host_clock \<Rightarrow> int \<Rightarrow> frame \<Rightarrow> bool" where
  "decodable clk time_offset frame =
     (case extract_frame_time clk frame time_offset of Inl e \<Rightarrow> False | Inr t \<Rightarrow> True)"

section \<open>The timestamp decoder\<close>

lemma thenR_Inr [simp]: "thenR (Inr x) f = f x"
  by (simp add: thenR_def)

lemma thenR_Inl [simp]: "thenR (Inl e) f = Inl e"
  by (simp add: thenR_def)

lemma byte_at_ok: "i < length frame \<Longrightarrow> byte_at frame i = Inr (frame ! i)"
  by (simp add: byte_at_def)

lemma byte_at_out: "length frame \<le> i \<Longrightarrow> byte_at frame i = Inl IndexError"
  by (simp add: byte_at_def)

lemma py_index_nat: "py_index frame (int k) = (if k < length frame then Inr (frame ! k) else Inl IndexError)"
  by (simp add: py_index_def)

lemma time_fields_nat:
  "time_fields frame (int k) =
     (if k + 6 \<le> length frame
      then Inr (frame ! k, frame ! (k + 1), frame ! (k + 2), frame ! (k + 3), frame ! (k + 4), frame ! (k + 5))
      else Inl IndexError)"
proof -
  have i: "int k + 1 = int (k + 1)" "int k + 2 = int (k + 2)" "int k + 3 = int (k + 3)"
    "int k + 4 = int (k + 4)" "int k + 5 = int (k + 5)"
    by simp_all
  show ?thesis
    unfolding time_fields_def i py_index_nat by (simp add: thenR_def)
qed

lemma extract_frame_time_nat:
  "extract_frame_time clk frame (int k) =
     (if k + 6 > length frame \<or> length frame < 255
         \<or> \<not> valid_civil (2000 + unat (frame ! k)) (unat (frame ! (k + 1)))
               (unat (frame ! (k + 2))) (unat (frame ! (k + 3)))
               (unat (frame ! (k + 4))) (unat (frame ! (k + 5)))
      then Inl ValueError
      else Inr (mktime clk \<lparr>year = 2000 + unat (frame ! k),
                  month = unat (frame ! (k + 1)), day = unat (frame ! (k + 2)),
                  hour = unat (frame ! (k + 3)), minute = unat (frame ! (k + 4)),
                  second = unat (frame ! (k + 5))\<rparr>))"
  unfolding extract_frame_time_def time_fields_nat by (simp add: datetime_def)

lemma utc_mktime_example:
  "utc_mktime \<lparr>year = 2025, month = 3, day = 15, hour = 10, minute = 30, second = 0\<rparr> = 1742034600"
  by (simp add: utc_mktime_def days_from_civil_def)

lemma valid_example: "valid_civil 2025 3 15 10 30 0"
  by (simp add: valid_civil_def days_in_month_def)

lemma frame_with_length [simp]: "length (frame_with n kvs) = n"
proof -
  have "\<And>f. length (foldl (\<lambda>f (i, b). f[i := b]) f kvs) = length f"
    by (induction kvs) auto
  then show ?thesis by (simp add: frame_with_def)
qed

lemma frame_with_nth:
  assumes "i < n"
  shows "frame_with n kvs ! i = (case map_of (rev kvs) i of None \<Rightarrow> 0 | Some b \<Rightarrow> b)"
proof -
  have g: "\<And>f. i < length f \<Longrightarrow>
      foldl (\<lambda>f (j, b). f[j := b]) f kvs ! i = (case map_of (rev kvs) i of None \<Rightarrow> f ! i | Some b \<Rightarrow> b)"
  proof (induction kvs rule: rev_induct)
    case Nil
    then show ?case by simp
  next
    case (snoc kv kvs)
    obtain j b where kv: "kv = (j, b)" by (cases kv)
    have len: "\<And>g. length (foldl (\<lambda>f (j, b). f[j := b]) g kvs) = length g"
      by (induction kvs) auto
    show ?case using snoc kv len by (simp add: nth_list_update)
  qed
  show ?thesis using g [of "replicate n 0"] assms by (simp add: frame_with_def split: option.split)
qed

lemma stamped_length [simp]: "length (stamped n sec kvs) = n"
  by (simp add: stamped_def)

lemma stamped_time:
  assumes "255 \<le> n" "unat sec < 60" "\<forall>kv\<in>set kvs. 6 \<le> fst kv"
  shows "extract_frame_time clk (stamped n sec kvs) 0 =
           Inr (mktime clk \<lparr>year = 2025, month = 3, day = 15, hour = 10, minute = 30, second = unat sec\<rparr>)"
proof -
  have none: "\<And>i. i < 6 \<Longrightarrow> map_of (rev kvs) i = None"
    using assms(3) by (force simp: map_of_eq_None_iff)
  have b: "stamped n sec kvs ! 0 = 25" "stamped n sec kvs ! (0 + 1) = 3" "stamped n sec kvs ! (0 + 2) = 15"
    "stamped n sec kvs ! (0 + 3) = 10" "stamped n sec kvs ! (0 + 4) = 30" "stamped n sec kvs ! (0 + 5) = sec"
    using assms(1) by (simp_all add: stamped_def frame_with_nth map_add_def none)
  have v: "valid_civil 2025 3 15 10 30 (unat sec)"
    using assms(2) by (simp add: valid_civil_def days_in_month_def)
  have "extract_frame_time clk (stamped n sec kvs) (int 0) =
           Inr (mktime clk \<lparr>year = 2025, month = 3, day = 15, hour = 10, minute = 30, second = unat sec\<rparr>)"
    unfolding extract_frame_time_nat b using assms(1) v by simp
  then show ?thesis by simp
qed

lemma stamped_nth:
  assumes "i < n" "6 \<le> i"
  shows "stamped n sec kvs ! i = (case map_of (rev kvs) i of None \<Rightarrow> 0 | Some b \<Rightarrow> b)"
  using assms by (auto simp: stamped_def frame_with_nth map_add_def split: option.split)

lemma decodable_iff: "decodable clk off f = (\<exists>t. extract_frame_time clk f off = Inr t)"
  by (simp add: decodable_def split: sum.splits)

text \<open>
  Claim C4, as amended. For every frame and every time offset that is not negative,
  \<open>extract_frame_time\<close> reads the six consecutive bytes at the offset as year - 2000,
  month, day, hour, minute and second. It raises ValueError exactly when the six bytes
  do not lie inside the frame, or the frame has fewer than 255 bytes, or the fields
  are not a valid date and time; otherwise it returns the epoch seconds that the
  host's conversion gives for these fields. A frame with the bytes 25, 3, 15, 10, 30,
  0 at the offset yields the timestamp of 2025-03-15 10:30:00, which is 1742034600 on
  a host whose local time is UTC.
\<close>

theorem extract_frame_time_spec:
  "(0 \<le> time_offset \<longrightarrow>
      extract_frame_time clk frame time_offset =
        (if time_offset + 6 > int (length frame) \<or> length frame < 255
            \<or> \<not> valid_civil (2000 + unat (frame ! nat time_offset)) (unat (frame ! (nat time_offset + 1)))
                  (unat (frame ! (nat time_offset + 2))) (unat (frame ! (nat time_offset + 3)))
                  (unat (frame ! (nat time_offset + 4))) (unat (frame ! (nat time_offset + 5)))
         then Inl ValueError
         else Inr (mktime clk \<lparr>year = 2000 + unat (frame ! nat time_offset),
                     month = unat (frame ! (nat time_offset + 1)), day = unat (frame ! (nat time_offset + 2)),
                     hour = unat (frame ! (nat time_offset + 3)), minute = unat (frame ! (nat time_offset + 4)),
                     second = unat (frame ! (nat time_offset + 5))\<rparr>)))
   \<and> (0 \<le> time_offset \<and> 255 \<le> length frame \<and> time_offset + 6 \<le> int (length frame)
        \<and> take 6 (drop (nat time_offset) frame) = [25, 3, 15, 10, 30, 0] \<longrightarrow>
        extract_frame_time clk frame time_offset =
          Inr (mktime clk \<lparr>year = 2025, month = 3, day = 15, hour = 10, minute = 30, second = 0\<rparr>))
   \<and> mktime utc_clock \<lparr>year = 2025, month = 3, day = 15, hour = 10, minute = 30, second = 0\<rparr> = 1742034600"
proof (intro conjI impI)
  assume nn: "0 \<le> time_offset"
  have e: "extract_frame_time clk frame time_offset = extract_frame_time clk frame (int (nat time_offset))"
    using nn by simp
  have c: "(time_offset + 6 > int (length frame)) = (nat time_offset + 6 > length frame)"
    using nn by linarith
  show "extract_frame_time clk frame time_offset =
        (if time_offset + 6 > int (length frame) \<or> length frame < 255
            \<or> \<not> valid_civil (2000 + unat (frame ! nat time_offset)) (unat (frame ! (nat time_offset + 1)))
                  (unat (frame ! (nat time_offset + 2))) (unat (frame ! (nat time_offset + 3)))
                  (unat (frame ! (nat time_offset + 4))) (unat (frame ! (nat time_offset + 5)))
         then Inl ValueError
         else Inr (mktime clk \<lparr>year = 2000 + unat (frame ! nat time_offset),
                     month = unat (frame ! (nat time_offset + 1)), day = unat (frame ! (nat time_offset + 2)),
                     hour = unat (frame ! (nat time_offset + 3)), minute = unat (frame ! (nat time_offset + 4)),
                     second = unat (frame ! (nat time_offset + 5))\<rparr>))"
    unfolding e c extract_frame_time_nat ..
next
  assume h: "0 \<le> time_offset \<and> 255 \<le> length frame \<and> time_offset + 6 \<le> int (length frame)
        \<and> take 6 (drop (nat time_offset) frame) = [25, 3, 15, 10, 30, 0]"
  define k where "k = nat time_offset"
  have le: "k + 6 \<le> length frame" using h k_def by linarith
  have nth: "\<And>i. i < 6 \<Longrightarrow> frame ! (k + i) = [25, 3, 15, 10, 30, 0] ! i"
  proof -
    fix i :: nat assume i: "i < 6"
    have "take 6 (drop k frame) ! i = frame ! (k + i)"
      using i le by (simp add: nth_drop)
    then show "frame ! (k + i) = [25, 3, 15, 10, 30, 0] ! i" using h k_def by metis
  qed
  have b: "frame ! k = 25" "frame ! (k + 1) = 3" "frame ! (k + 2) = 15"
    "frame ! (k + 3) = 10" "frame ! (k + 4) = 30" "frame ! (k + 5) = 0"
    using nth [of 0] nth [of 1] nth [of 2] nth [of 3] nth [of 4] nth [of 5] by simp_all
  have "extract_frame_time clk frame (int k) =
          Inr (mktime clk \<lparr>year = 2025, month = 3, day = 15, hour = 10, minute = 30, second = 0\<rparr>)"
    unfolding extract_frame_time_nat b using h le valid_example by simp
  then show "extract_frame_time clk frame time_offset =
          Inr (mktime clk \<lparr>year = 2025, month = 3, day = 15, hour = 10, minute = 30, second = 0\<rparr>)"
    using h k_def by simp
next
  show "mktime utc_clock \<lparr>year = 2025, month = 3, day = 15, hour = 10, minute = 30, second = 0\<rparr> = 1742034600"
    by (simp add: utc_clock_def utc_mktime_example)
qed

theorem extract_frame_time_spec_witness:
  "extract_frame_time utc_clock (stamped 255 0 []) 0 = Inr 1742034600"
proof -
  have len: "(0::int) \<le> 0 \<and> 255 \<le> length (stamped 255 0 []) \<and> 0 + 6 \<le> int (length (stamped 255 0 []))
      \<and> take 6 (drop (nat 0) (stamped 255 0 [])) = [25, 3, 15, 10, 30, 0]"
    by (simp add: stamped_def frame_with_def list_eq_iff_nth_eq nth_Cons' less_Suc_eq numeral_eq_Suc)
  have "extract_frame_time utc_clock (stamped 255 0 []) 0 =
          Inr (mktime utc_clock \<lparr>year = 2025, month = 3, day = 15, hour = 10, minute = 30, second = 0\<rparr>)"
    using extract_frame_time_spec [of 0 utc_clock "stamped 255 0 []", THEN conjunct2, THEN conjunct1] len
    by blast
  moreover have "mktime utc_clock \<lparr>year = 2025, month = 3, day = 15, hour = 10, minute = 30, second = 0\<rparr>
      = 1742034600"
    using extract_frame_time_spec [of 0 utc_clock "stamped 255 0 []", THEN conjunct2, THEN conjunct2] .
  ultimately show ?thesis by simp
qed

text \<open>
  The claim as it is stated, for every time offset, fails below 0. With the offset
  -300 a frame of 255 bytes, all of them 1, raises ValueError although the offset plus
  6 does not exceed the length, the frame has 255 bytes and any six of its bytes are
  the valid time 2001-01-01 01:01:01. With the offset -3 the six reads wrap around:
  they take the bytes 252, 253, 254, 0, 1 and 2, which are not consecutive, and return
  a timestamp.
\<close>

theorem extract_frame_time_negative_offset:
  "extract_frame_time utc_clock (replicate 255 1) (- 300) = Inl ValueError
   \<and> \<not> (- 300 + 6 > int (length (replicate 255 (1::byte))))
   \<and> \<not> (length (replicate 255 (1::byte)) < 255)
   \<and> valid_civil (2000 + unat (1::byte)) (unat (1::byte)) (unat (1::byte)) (unat (1::byte))
        (unat (1::byte)) (unat (1::byte))
   \<and> extract_frame_time utc_clock wrap_frame (- 3) = Inr 1742034607
   \<and> [wrap_frame ! 252, wrap_frame ! 253, wrap_frame ! 254, wrap_frame ! 0, wrap_frame ! 1, wrap_frame ! 2]
       = [25, 3, 15, 10, 30, 7]"
proof (intro conjI)
  show "extract_frame_time utc_clock (replicate 255 1) (- 300) = Inl ValueError"
    by (simp add: extract_frame_time_def time_fields_def py_index_def)
  show "\<not> (- 300 + 6 > int (length (replicate 255 (1::byte))))" by simp
  show "\<not> (length (replicate 255 (1::byte)) < 255)" by simp
  show "valid_civil (2000 + unat (1::byte)) (unat (1::byte)) (unat (1::byte)) (unat (1::byte))
        (unat (1::byte)) (unat (1::byte))"
    by (simp add: valid_civil_def days_in_month_def)
  have w: "wrap_frame ! 252 = 25" "wrap_frame ! 253 = 3" "wrap_frame ! 254 = 15"
    "wrap_frame ! 0 = 10" "wrap_frame ! 1 = 30" "wrap_frame ! 2 = 7"
    by (simp_all add: wrap_frame_def frame_with_nth)
  have len: "length wrap_frame = 255" by (simp add: wrap_frame_def)
  have v: "valid_civil 2025 3 15 10 30 7" by (simp add: valid_civil_def days_in_month_def)
  have m: "utc_mktime \<lparr>year = 2025, month = 3, day = 15, hour = 10, minute = 30, second = 7\<rparr> = 1742034607"
    by (simp add: utc_mktime_def days_from_civil_def)
  show "extract_frame_time utc_clock wrap_frame (- 3) = Inr 1742034607"
    using w v m by (simp add: extract_frame_time_def time_fields_def py_index_def len datetime_def utc_clock_def)
  show "[wrap_frame ! 252, wrap_frame ! 253, wrap_frame ! 254, wrap_frame ! 0, wrap_frame ! 1, wrap_frame ! 2]
       = [25, 3, 15, 10, 30, 7]"
    using w by simp
qed

section \<open>The blocks of the source against the reductions of the specification\<close>


lemma get_at_ok: "k < length res \<Longrightarrow> get_at res k = Inr (res ! k)"
  by (simp add: get_at_def)

lemma set_at_ok: "k < length res \<Longrightarrow> set_at res k v = Inr (res[k := v])"
  by (simp add: set_at_def)

lemma judge_at_eq: "judge_at kmax kspeed v speed = judge_store_at kmax kspeed v (Inr v) speed"
  by (rule ext) (simp add: judge_at_def judge_store_at_def cong: if_cong)

lemma max_at_ok:
  assumes "k < length res" "is_num (res ! k)"
  shows "max_at k speed res = Inr (res[k := Num (max speed (num_of (res ! k)))])"
proof -
  obtain m where m: "res ! k = Num m" using assms(2) by (cases "res ! k") auto
  have "res[k := Num m] = res" using m by (metis list_update_id)
  then show ?thesis
    using assms(1) m by (auto simp: max_at_def get_at_ok set_at_ok max_def)
qed

lemma mark_at_ok:
  assumes "k < length res"
  shows "mark_at c k ft res = Inr (res[k := (if c then Str ft else res ! k)])"
  using assms by (simp add: mark_at_def set_at_ok)

lemma judge_store_at_ok:
  assumes "kmax < length res" "kspeed < length res" "kmax \<noteq> kspeed"
    and "is_num (res ! kmax)" "is_num (res ! kspeed)"
  shows "judge_store_at kmax kspeed v (Inr w) speed res =
     (case judge v w speed (num_of (res ! kmax), num_of (res ! kspeed)) of
        (a, b) \<Rightarrow> Inr (res[kmax := Num a, kspeed := Num b]))"
proof -
  obtain m where m: "res ! kmax = Num m" using assms(4) by (cases "res ! kmax") auto
  obtain s where s: "res ! kspeed = Num s" using assms(5) by (cases "res ! kspeed") auto
  have id1: "res[kspeed := Num s] = res" using s by (metis list_update_id)
  have id2: "res[kmax := Num m] = res" using m by (metis list_update_id)
  show ?thesis
    using assms(1-3) m s id1 id2
    by (auto simp: judge_store_at_def get_at_ok set_at_ok judge_def)
qed

lemma judge3_at_ok:
  assumes "kamp < length res" "kfre < length res" "kspeed < length res"
    and "kamp \<noteq> kfre" "kamp \<noteq> kspeed" "kfre \<noteq> kspeed"
    and "is_num (res ! kamp)" "is_num (res ! kfre)" "is_num (res ! kspeed)"
  shows "judge3_at kamp kfre kspeed amp fre speed res =
     (case judge3 amp fre speed (num_of (res ! kamp), num_of (res ! kfre), num_of (res ! kspeed)) of
        (a, b, c) \<Rightarrow> Inr (res[kamp := Num a, kfre := Num b, kspeed := Num c]))"
proof -
  obtain a where a: "res ! kamp = Num a" using assms(7) by (cases "res ! kamp") auto
  obtain b where b: "res ! kfre = Num b" using assms(8) by (cases "res ! kfre") auto
  obtain c where c: "res ! kspeed = Num c" using assms(9) by (cases "res ! kspeed") auto
  have id1: "res[kamp := Num a] = res" using a by (metis list_update_id)
  have id2: "res[kfre := Num b] = res" using b by (metis list_update_id)
  have id3: "res[kspeed := Num c] = res" using c by (metis list_update_id)
  show ?thesis
    using assms(1-6) a b c id1 id2 id3
    by (auto simp: judge3_at_def get_at_ok set_at_ok judge3_def)
qed


lemma ch_nums_subset: "set (ch_nums ch) \<subseteq> set (ch_slots ch)"
  by (cases ch) auto

lemma ch_after_cong:
  assumes "\<forall>k\<in>set (ch_slots ch). res1 ! k = res2 ! k" "\<forall>k\<in>set (ch_slots ch). out1 ! k = out2 ! k"
  shows "ch_after spd tm fs res1 out1 ch = ch_after spd tm fs res2 out2 ch"
  using assms by (cases ch) auto

lemma run_chan_ok:
  assumes "distinct (ch_slots ch)" "\<forall>k\<in>set (ch_slots ch). k < length res"
    and "\<forall>k\<in>set (ch_nums ch). is_num (res ! k)"
  shows "\<exists>res'. run_chan spd ft f ch res = Inr res' \<and> length res' = length res
           \<and> ch_after spd (\<lambda>_. ft) [f] res res' ch
           \<and> (\<forall>j. j \<notin> set (ch_slots ch) \<longrightarrow> res' ! j = res ! j)
           \<and> (\<forall>k\<in>set (ch_nums ch). is_num (res' ! k))"
proof (cases ch)
  case (Max_ch k)
  then show ?thesis using assms by (simp add: max_at_ok)
next
  case (Mark_ch k c)
  then show ?thesis using assms by (simp add: mark_at_ok)
next
  case (Judge_ch kmax kspeed dv dw)
  obtain a b where ab: "judge (dv f) (dw f) (spd f) (num_of (res ! kmax), num_of (res ! kspeed)) = (a, b)"
    by (cases "judge (dv f) (dw f) (spd f) (num_of (res ! kmax), num_of (res ! kspeed))")
  show ?thesis using assms Judge_ch ab by (simp add: judge_store_at_ok)
next
  case (Judge3_ch kamp kfre kspeed da df)
  obtain a b c where abc:
    "judge3 (da f) (df f) (spd f) (num_of (res ! kamp), num_of (res ! kfre), num_of (res ! kspeed)) = (a, b, c)"
    by (cases "judge3 (da f) (df f) (spd f) (num_of (res ! kamp), num_of (res ! kfre), num_of (res ! kspeed))")
  show ?thesis using assms Judge3_ch abc by (simp add: judge3_at_ok)
qed


lemma run_chans_ok:
  assumes "distinct (concat (map ch_slots chans))"
    and "\<forall>k\<in>set (concat (map ch_slots chans)). k < length res"
    and "\<forall>ch\<in>set chans. \<forall>k\<in>set (ch_nums ch). is_num (res ! k)"
  shows "\<exists>res'. seqR (map (run_chan spd ft f) chans) res = Inr res' \<and> length res' = length res
           \<and> (\<forall>ch\<in>set chans. ch_after spd (\<lambda>_. ft) [f] res res' ch)
           \<and> (\<forall>j. j \<notin> set (concat (map ch_slots chans)) \<longrightarrow> res' ! j = res ! j)
           \<and> (\<forall>ch\<in>set chans. \<forall>k\<in>set (ch_nums ch). is_num (res' ! k))"
  using assms
proof (induction chans arbitrary: res)
  case Nil
  then show ?case by simp
next
  case (Cons c cs)
  have d1: "distinct (ch_slots c)" and d2: "distinct (concat (map ch_slots cs))"
    and disj: "set (ch_slots c) \<inter> set (concat (map ch_slots cs)) = {}"
    using Cons.prems(1) by auto
  obtain r1 where r1: "run_chan spd ft f c res = Inr r1" and len1: "length r1 = length res"
    and post1: "ch_after spd (\<lambda>_. ft) [f] res r1 c"
    and same1: "\<forall>j. j \<notin> set (ch_slots c) \<longrightarrow> r1 ! j = res ! j"
    and num1: "\<forall>k\<in>set (ch_nums c). is_num (r1 ! k)"
    using run_chan_ok [OF d1, of res spd ft f] Cons.prems(2,3) by auto
  have keep: "\<forall>k\<in>set (concat (map ch_slots cs)). r1 ! k = res ! k"
    using same1 disj by auto
  have nums_cs: "\<forall>ch\<in>set cs. \<forall>k\<in>set (ch_nums ch). is_num (r1 ! k)"
  proof (intro ballI)
    fix ch k assume ch: "ch \<in> set cs" and k: "k \<in> set (ch_nums ch)"
    then have "k \<in> set (concat (map ch_slots cs))" using ch_nums_subset [of ch] by auto
    then have "r1 ! k = res ! k" using keep by blast
    then show "is_num (r1 ! k)" using Cons.prems(3) ch k by simp
  qed
  obtain r2 where r2: "seqR (map (run_chan spd ft f) cs) r1 = Inr r2" and len2: "length r2 = length r1"
    and post2: "\<forall>ch\<in>set cs. ch_after spd (\<lambda>_. ft) [f] r1 r2 ch"
    and same2: "\<forall>j. j \<notin> set (concat (map ch_slots cs)) \<longrightarrow> r2 ! j = r1 ! j"
    and num2: "\<forall>ch\<in>set cs. \<forall>k\<in>set (ch_nums ch). is_num (r2 ! k)"
    using Cons.IH [OF d2, of r1] Cons.prems(2) len1 nums_cs by auto
  have c_keep: "\<forall>k\<in>set (ch_slots c). r2 ! k = r1 ! k"
    using same2 disj by auto
  have "ch_after spd (\<lambda>_. ft) [f] res r2 c"
    using post1 ch_after_cong [of c res res r2 r1] c_keep by simp
  moreover have "\<forall>ch\<in>set cs. ch_after spd (\<lambda>_. ft) [f] res r2 ch"
  proof
    fix ch assume ch: "ch \<in> set cs"
    then have "\<forall>k\<in>set (ch_slots ch). r1 ! k = res ! k" using keep by auto
    then have "ch_after spd (\<lambda>_. ft) [f] r1 r2 ch = ch_after spd (\<lambda>_. ft) [f] res r2 ch"
      by (intro ch_after_cong) auto
    then show "ch_after spd (\<lambda>_. ft) [f] res r2 ch" using post2 ch by simp
  qed
  moreover have "\<forall>k\<in>set (ch_nums c). is_num (r2 ! k)"
    using num1 c_keep ch_nums_subset [of c] by auto
  moreover have "\<forall>j. j \<notin> set (concat (map ch_slots (c # cs))) \<longrightarrow> r2 ! j = res ! j"
    using same1 same2 by auto
  ultimately show ?case
    using r1 r2 len1 len2 num2 by simp
qed

lemma ch_after_Cons:
  assumes "ch_after spd tm [f] res r1 ch" "ch_after spd tm fs r1 out ch"
  shows "ch_after spd tm (f # fs) res out ch"
proof (cases ch)
  case (Max_ch k)
  then show ?thesis using assms by simp
next
  case (Mark_ch k c)
  then show ?thesis using assms by simp
next
  case (Judge_ch kmax kspeed dv dw)
  then show ?thesis using assms
    by (cases "judge (dv f) (dw f) (spd f) (num_of (res ! kmax), num_of (res ! kspeed))") simp
next
  case (Judge3_ch kamp kfre kspeed da df)
  then show ?thesis using assms
    by (cases "judge3 (da f) (df f) (spd f) (num_of (res ! kamp), num_of (res ! kfre), num_of (res ! kspeed))") simp
qed

lemma ch_after_one_tm:
  "ch_after spd (\<lambda>_. tm f) [f] res out ch = ch_after spd tm [f] res out ch"
  by (cases ch) simp_all

lemma for_frames_ok:
  assumes ref: "\<And>res f. f \<in> set frames \<Longrightarrow> length res = n \<Longrightarrow>
                  step res f = seqR (map (run_chan spd (tm f) f) chans) res"
    and tab: "table_ok n chans"
    and len: "length res = n"
    and num: "\<forall>ch\<in>set chans. \<forall>k\<in>set (ch_nums ch). is_num (res ! k)"
  shows "\<exists>out. for_frames step res frames = Inr out \<and> length out = n
           \<and> (\<forall>ch\<in>set chans. ch_after spd tm frames res out ch)
           \<and> (\<forall>ch\<in>set chans. \<forall>k\<in>set (ch_nums ch). is_num (out ! k))"
  using ref len num
proof (induction frames arbitrary: res)
  case Nil
  have "\<forall>ch\<in>set chans. ch_after spd tm [] res res ch"
  proof
    fix ch assume ch: "ch \<in> set chans"
    show "ch_after spd tm [] res res ch"
    proof (cases ch)
      case (Max_ch k)
      then show ?thesis using Nil.prems(3) ch by (cases "res ! k") auto
    next
      case (Mark_ch k c)
      then show ?thesis by simp
    next
      case (Judge_ch kmax kspeed dv dw)
      then show ?thesis using Nil.prems(3) ch
        by (cases "res ! kmax"; cases "res ! kspeed") auto
    next
      case (Judge3_ch kamp kfre kspeed da df)
      then show ?thesis using Nil.prems(3) ch
        by (cases "res ! kamp"; cases "res ! kfre"; cases "res ! kspeed") auto
    qed
  qed
  then show ?case using Nil.prems by simp
next
  case (Cons f fs)
  have d: "distinct (concat (map ch_slots chans))"
    and b: "\<forall>k\<in>set (concat (map ch_slots chans)). k < length res"
    using tab Cons.prems(2) by (auto simp: table_ok_def list_all_iff)
  obtain r1 where r1: "seqR (map (run_chan spd (tm f) f) chans) res = Inr r1"
    and len1: "length r1 = length res"
    and post1: "\<forall>ch\<in>set chans. ch_after spd (\<lambda>_. tm f) [f] res r1 ch"
    and num1: "\<forall>ch\<in>set chans. \<forall>k\<in>set (ch_nums ch). is_num (r1 ! k)"
    using run_chans_ok [OF d b Cons.prems(3), of spd "tm f" f] by auto
  have step1: "step res f = Inr r1"
    using Cons.prems(1) [of f res] Cons.prems(2) r1 by simp
  obtain out where out: "for_frames step r1 fs = Inr out" and leno: "length out = n"
    and posto: "\<forall>ch\<in>set chans. ch_after spd tm fs r1 out ch"
    and numo: "\<forall>ch\<in>set chans. \<forall>k\<in>set (ch_nums ch). is_num (out ! k)"
    using Cons.IH [of r1] Cons.prems(1) len1 Cons.prems(2) num1 by auto
  have "\<forall>ch\<in>set chans. ch_after spd tm (f # fs) res out ch"
    using post1 posto ch_after_Cons [of spd tm f res r1 _ fs out] ch_after_one_tm [of spd tm f res r1]
    by blast
  then show ?case using step1 out leno numo by simp
qed


lemma u8_ok: "i < length frame \<Longrightarrow> u8 frame i = Inr (raw8 frame i)"
  by (simp add: u8_def byte_at_ok raw8_def)

lemma u8_scaled_ok: "i < length frame \<Longrightarrow> u8_scaled frame i s = Inr (raw8 frame i * s)"
  by (simp add: u8_scaled_def byte_at_ok raw8_def)

lemma unpack_H_ok:
  assumes "a + 2 \<le> length frame"
  shows "unpack_H frame a = Inr (unat (frame ! a) * 256 + unat (frame ! (a + 1)))"
proof -
  have "take 2 (drop a frame) = [frame ! a, frame ! (a + 1)]"
    using assms by (auto simp: list_eq_iff_nth_eq nth_Cons' ac_simps less_Suc_eq numeral_2_eq_2)
  then show ?thesis by (simp add: unpack_H_def)
qed

lemma u16_scaled_ok: "a + 2 \<le> length frame \<Longrightarrow> u16_scaled frame a s = Inr (raw16 frame a * s)"
  by (simp add: u16_scaled_def unpack_H_ok raw16_def)

lemma any_byte_ok: "list_all (\<lambda>i. i < length frame) is \<Longrightarrow> any_byte frame is = Inr (any_nz frame is)"
  by (induction "is") (auto simp: byte_at_ok any_nz_def)

lemma upt_4: "[0..<4] = [0, 1, 2, 3]"
  by code_simp

lemma upt_16: "[0..<16] = [0, 1, 2, 3, 4, 5, 6, 7, 8, 9, 10, 11, 12, 13, 14, 15]"
  by code_simp

lemma seqR_Nil_fun: "seqR [] = Inr"
  by (rule ext) simp

lemma seqR_Cons_fun: "seqR (f # fs) = (\<lambda>s. thenR (f s) (seqR fs))"
  by (rule ext) simp

lemma thenR_assoc: "thenR (thenR m f) g = thenR m (\<lambda>x. thenR (f x) g)"
  by (cases m) simp_all

lemma thenR_unit: "thenR m Inr = m"
  by (cases m) simp_all

lemma mark_at_merge:
  "thenR (mark_at c k ft r) (\<lambda>r'. thenR (mark_at c' k ft r') g) = thenR (mark_at (c \<or> c') k ft r) g"
  by (auto simp: mark_at_def set_at_def)

lemma mark_at_merge_last:
  "thenR (mark_at c k ft r) (mark_at c' k ft) = mark_at (c \<or> c') k ft r"
  by (auto simp: mark_at_def set_at_def)

section \<open>The four judge functions against their channel tables\<close>

lemma u16_round3_ok: "a + 2 \<le> length frame \<Longrightarrow> u16_round3 frame a s = Inr (round3 (raw16 frame a * s))"
  by (simp add: u16_round3_def unpack_H_ok raw16_def)

lemma upt_8: "[0..<8] = [0, 1, 2, 3, 4, 5, 6, 7]"
  by code_simp

lemma upt_48:
  "[0..<48] = [0, 1, 2, 3, 4, 5, 6, 7, 8, 9, 10, 11, 12, 13, 14, 15]
      @ [16, 17, 18, 19, 20, 21, 22, 23, 24, 25, 26, 27, 28, 29, 30, 31]
      @ [32, 33, 34, 35, 36, 37, 38, 39, 40, 41, 42, 43, 44, 45, 46, 47]"
  by code_simp

text \<open>
  Under a frame that is long enough and whose time decodes, the body of each loop is
  the run of the frame through the channels of the profile's table, in the table's
  order. Both sides unfold to the same chain of blocks.
\<close>

lemma GVDS_refine:
  assumes "302 \<le> length frame" "frame_time_str clk frame off = Inr ft"
  shows "GVDS_frame clk off res frame = seqR (map (run_chan GVDS_speed ft frame) GVDS_channels) res"
  using assms
  by (simp add: GVDS_frame_def GVDS_channels_def GVDS_speed_def for_range_def upt_4 upt_16
      u8_ok u8_scaled_ok u16_scaled_ok any_byte_ok byte_at_ok
      seqR_Nil_fun seqR_Cons_fun thenR_assoc thenR_unit judge_at_eq mark_at_merge mark_at_merge_last
      del: seqR.simps any_byte.simps)

lemma MVDS_refine:
  assumes "255 \<le> length frame" "frame_time_str clk frame off = Inr ft"
  shows "MVDS_frame clk off res frame = seqR (map (run_chan MVDS_speed ft frame) MVDS_channels) res"
  using assms
  by (simp add: MVDS_frame_def MVDS_channels_def MVDS_speed_def for_range_def upt_8 upt_48
      u8_ok u8_scaled_ok u16_scaled_ok u16_round3_ok any_byte_ok byte_at_ok
      seqR_Nil_fun seqR_Cons_fun thenR_assoc thenR_unit judge_at_eq mark_at_merge mark_at_merge_last
      del: seqR.simps any_byte.simps)

lemma WNDS_refine:
  assumes "255 \<le> length frame" "frame_time_str clk frame off = Inr ft"
  shows "WNDS_frame clk off res frame = seqR (map (run_chan WNDS_speed ft frame) WNDS_channels) res"
  using assms
  by (simp add: WNDS_frame_def WNDS_channels_def WNDS_speed_def
      u8_ok u8_scaled_ok u16_scaled_ok byte_at_ok
      seqR_Nil_fun seqR_Cons_fun thenR_assoc thenR_unit judge_at_eq
      del: seqR.simps)

lemma BIDS_refine:
  assumes "255 \<le> length frame" "frame_time_str clk frame off = Inr ft"
  shows "BIDS_frame clk off res frame = seqR (map (run_chan BIDS_speed ft frame) BIDS_channels) res"
  using assms
  by (simp add: BIDS_frame_def BIDS_channels_def BIDS_speed_def
      u8_ok u8_scaled_ok u16_scaled_ok byte_at_ok
      seqR_Nil_fun seqR_Cons_fun thenR_assoc thenR_unit judge_at_eq
      del: seqR.simps)

text \<open>The slot of a variable is its position in the returned list.\<close>

lemma var_slot_nth: "distinct xs \<Longrightarrow> k < length xs \<Longrightarrow> var_slot xs (xs ! k) = k"
proof (induction xs arbitrary: k)
  case Nil
  then show ?case by simp
next
  case (Cons x xs)
  show ?case
  proof (cases k)
    case 0
    then show ?thesis by simp
  next
    case (Suc j)
    then have "xs ! j \<in> set xs" using Cons.prems by simp
    then have "xs ! j \<noteq> x" using Cons.prems by auto
    then show ?thesis using Suc Cons by simp
  qed
qed

lemma WNDS_length: "length WNDS_variables = 54"
  by (simp add: WNDS_variables_def)

lemma BIDS_length: "length BIDS_variables = 55"
  by (simp add: BIDS_variables_def)

lemma WNDS_distinct: "distinct WNDS_variables"
  by code_simp

lemma BIDS_distinct: "distinct BIDS_variables"
  by code_simp

lemma WNDS_var_nth: "k < 54 \<Longrightarrow> WNDS_var (WNDS_variables ! k) = k"
  by (simp add: WNDS_var_def var_slot_nth WNDS_distinct WNDS_length)

lemma BIDS_var_nth: "k < 55 \<Longrightarrow> BIDS_var (BIDS_variables ! k) = k"
  by (simp add: BIDS_var_def var_slot_nth BIDS_distinct BIDS_length)

lemma WNDS_slot_of:
  "WNDS_var ''speed_max'' = 0 \<and> WNDS_var ''sharedata_comm'' = 1 \<and>
   WNDS_var ''sensor_check'' = 2 \<and> WNDS_var ''sensor_realtime'' = 3 \<and>
   WNDS_var ''stable_HX_warn'' = 4 \<and> WNDS_var ''stable_HX_alarm'' = 5 \<and>
   WNDS_var ''stable_CX_warn'' = 6 \<and> WNDS_var ''stable_CX_alarm'' = 7 \<and>
   WNDS_var ''douche_warn'' = 8 \<and> WNDS_var ''douche_alarm'' = 9 \<and>
   WNDS_var ''shake_warn'' = 10 \<and> WNDS_var ''shake_alarm'' = 11 \<and>
   WNDS_var ''stable_1HX_max'' = 12 \<and> WNDS_var ''stable_1HX_speed'' = 13 \<and>
   WNDS_var ''stable_2HX_max'' = 14 \<and> WNDS_var ''stable_2HX_speed'' = 15 \<and>
   WNDS_var ''stable_1CX_max'' = 16 \<and> WNDS_var ''stable_1CX_speed'' = 17 \<and>
   WNDS_var ''stable_2CX_max'' = 18 \<and> WNDS_var ''stable_2CX_speed'' = 19 \<and>
   WNDS_var ''peak_0p2_3_1HX_max'' = 20 \<and> WNDS_var ''peak_0p2_3_1HX_speed'' = 21 \<and>
   WNDS_var ''peak_0p2_3_2HX_max'' = 22 \<and> WNDS_var ''peak_0p2_3_2HX_speed'' = 23 \<and>
   WNDS_var ''rms_5_13_1HX_max'' = 24 \<and> WNDS_var ''rms_5_13_1HX_speed'' = 25 \<and>
   WNDS_var ''rms_5_13_2HX_max'' = 26 \<and> WNDS_var ''rms_5_13_2HX_speed'' = 27 \<and>
   WNDS_var ''rms_5_13_1CX_max'' = 28 \<and> WNDS_var ''rms_5_13_1CX_speed'' = 29 \<and>
   WNDS_var ''rms_5_13_2CX_max'' = 30 \<and> WNDS_var ''rms_5_13_2CX_speed'' = 31 \<and>
   WNDS_var ''main_fre_amp_1CX_max'' = 32 \<and> WNDS_var ''main_fre_1CX'' = 33 \<and>
   WNDS_var ''main_fre_amp_1CX_speed'' = 34 \<and>
   WNDS_var ''main_fre_amp_2CX_max'' = 35 \<and> WNDS_var ''main_fre_2CX'' = 36 \<and>
   WNDS_var ''main_fre_amp_2CX_speed'' = 37 \<and> WNDS_var ''acc_max_1HX_max'' = 38 \<and>
   WNDS_var ''acc_max_1HX_speed'' = 39 \<and> WNDS_var ''acc_max_2HX_max'' = 40 \<and>
   WNDS_var ''acc_max_2HX_speed'' = 41 \<and> WNDS_var ''acc_valid_1HX_max'' = 42 \<and>
   WNDS_var ''acc_valid_1HX_speed'' = 43 \<and> WNDS_var ''acc_valid_2HX_max'' = 44 \<and>
   WNDS_var ''acc_valid_2HX_speed'' = 45 \<and> WNDS_var ''acc_max_1CX_max'' = 46 \<and>
   WNDS_var ''acc_max_1CX_speed'' = 47 \<and> WNDS_var ''acc_max_2CX_max'' = 48 \<and>
   WNDS_var ''acc_max_2CX_speed'' = 49 \<and> WNDS_var ''acc_valid_1CX_max'' = 50 \<and>
   WNDS_var ''acc_valid_1CX_speed'' = 51 \<and> WNDS_var ''acc_valid_2CX_max'' = 52 \<and>
   WNDS_var ''acc_valid_2CX_speed'' = 53"
  using
    WNDS_var_nth [of 0] WNDS_var_nth [of 1] WNDS_var_nth [of 2] WNDS_var_nth [of 3]
    WNDS_var_nth [of 4] WNDS_var_nth [of 5] WNDS_var_nth [of 6] WNDS_var_nth [of 7]
    WNDS_var_nth [of 8] WNDS_var_nth [of 9] WNDS_var_nth [of 10] WNDS_var_nth [of 11]
    WNDS_var_nth [of 12] WNDS_var_nth [of 13] WNDS_var_nth [of 14] WNDS_var_nth [of 15]
    WNDS_var_nth [of 16] WNDS_var_nth [of 17] WNDS_var_nth [of 18] WNDS_var_nth [of 19]
    WNDS_var_nth [of 20] WNDS_var_nth [of 21] WNDS_var_nth [of 22] WNDS_var_nth [of 23]
    WNDS_var_nth [of 24] WNDS_var_nth [of 25] WNDS_var_nth [of 26] WNDS_var_nth [of 27]
    WNDS_var_nth [of 28] WNDS_var_nth [of 29] WNDS_var_nth [of 30] WNDS_var_nth [of 31]
    WNDS_var_nth [of 32] WNDS_var_nth [of 33] WNDS_var_nth [of 34] WNDS_var_nth [of 35]
    WNDS_var_nth [of 36] WNDS_var_nth [of 37] WNDS_var_nth [of 38] WNDS_var_nth [of 39]
    WNDS_var_nth [of 40] WNDS_var_nth [of 41] WNDS_var_nth [of 42] WNDS_var_nth [of 43]
    WNDS_var_nth [of 44] WNDS_var_nth [of 45] WNDS_var_nth [of 46] WNDS_var_nth [of 47]
    WNDS_var_nth [of 48] WNDS_var_nth [of 49] WNDS_var_nth [of 50] WNDS_var_nth [of 51]
    WNDS_var_nth [of 52] WNDS_var_nth [of 53]
  by (simp add: WNDS_variables_def)

lemma BIDS_slot_of:
  "BIDS_var ''speed_max'' = 0 \<and> BIDS_var ''sharedata_comm'' = 1 \<and>
   BIDS_var ''sensor_check'' = 2 \<and> BIDS_var ''sensor_realtime'' = 3 \<and>
   BIDS_var ''offset_fault'' = 4 \<and> BIDS_var ''bogie_warn'' = 5 \<and>
   BIDS_var ''bogie_alarm'' = 6 \<and> BIDS_var ''min_1HX_max'' = 7 \<and>
   BIDS_var ''min_1HX_speed'' = 8 \<and> BIDS_var ''min_2HX_max'' = 9 \<and>
   BIDS_var ''min_2HX_speed'' = 10 \<and> BIDS_var ''min_3HX_max'' = 11 \<and>
   BIDS_var ''min_3HX_speed'' = 12 \<and> BIDS_var ''min_4HX_max'' = 13 \<and>
   BIDS_var ''min_4HX_speed'' = 14 \<and> BIDS_var ''mean_1HX_max'' = 15 \<and>
   BIDS_var ''mean_1HX_speed'' = 16 \<and> BIDS_var ''mean_2HX_max'' = 17 \<and>
   BIDS_var ''mean_2HX_speed'' = 18 \<and> BIDS_var ''mean_3HX_max'' = 19 \<and>
   BIDS_var ''mean_3HX_speed'' = 20 \<and> BIDS_var ''mean_4HX_max'' = 21 \<and>
   BIDS_var ''mean_4HX_speed'' = 22 \<and> BIDS_var ''max_1HX_max'' = 23 \<and>
   BIDS_var ''max_1HX_speed'' = 24 \<and> BIDS_var ''max_2HX_max'' = 25 \<and>
   BIDS_var ''max_2HX_speed'' = 26 \<and> BIDS_var ''max_3HX_max'' = 27 \<and>
   BIDS_var ''max_3HX_speed'' = 28 \<and> BIDS_var ''max_4HX_max'' = 29 \<and>
   BIDS_var ''max_4HX_speed'' = 30 \<and> BIDS_var ''rms_1HX_max'' = 31 \<and>
   BIDS_var ''rms_1HX_speed'' = 32 \<and> BIDS_var ''rms_2HX_max'' = 33 \<and>
   BIDS_var ''rms_2HX_speed'' = 34 \<and> BIDS_var ''rms_3HX_max'' = 35 \<and>
   BIDS_var ''rms_3HX_speed'' = 36 \<and> BIDS_var ''rms_4HX_max'' = 37 \<and>
   BIDS_var ''rms_4HX_speed'' = 38 \<and> BIDS_var ''max_1CX_max'' = 39 \<and>
   BIDS_var ''max_1CX_speed'' = 40 \<and> BIDS_var ''max_2CX_max'' = 41 \<and>
   BIDS_var ''max_2CX_speed'' = 42 \<and> BIDS_var ''max_3CX_max'' = 43 \<and>
   BIDS_var ''max_3CX_speed'' = 44 \<and> BIDS_var ''max_4CX_max'' = 45 \<and>
   BIDS_var ''max_4CX_speed'' = 46 \<and> BIDS_var ''rms_1CX_max'' = 47 \<and>
   BIDS_var ''rms_1CX_speed'' = 48 \<and> BIDS_var ''rms_2CX_max'' = 49 \<and>
   BIDS_var ''rms_2CX_speed'' = 50 \<and> BIDS_var ''rms_3CX_max'' = 51 \<and>
   BIDS_var ''rms_3CX_speed'' = 52 \<and> BIDS_var ''rms_4CX_max'' = 53 \<and>
   BIDS_var ''rms_4CX_speed'' = 54"
  using
    BIDS_var_nth [of 0] BIDS_var_nth [of 1] BIDS_var_nth [of 2] BIDS_var_nth [of 3]
    BIDS_var_nth [of 4] BIDS_var_nth [of 5] BIDS_var_nth [of 6] BIDS_var_nth [of 7]
    BIDS_var_nth [of 8] BIDS_var_nth [of 9] BIDS_var_nth [of 10] BIDS_var_nth [of 11]
    BIDS_var_nth [of 12] BIDS_var_nth [of 13] BIDS_var_nth [of 14] BIDS_var_nth [of 15]
    BIDS_var_nth [of 16] BIDS_var_nth [of 17] BIDS_var_nth [of 18] BIDS_var_nth [of 19]
    BIDS_var_nth [of 20] BIDS_var_nth [of 21] BIDS_var_nth [of 22] BIDS_var_nth [of 23]
    BIDS_var_nth [of 24] BIDS_var_nth [of 25] BIDS_var_nth [of 26] BIDS_var_nth [of 27]
    BIDS_var_nth [of 28] BIDS_var_nth [of 29] BIDS_var_nth [of 30] BIDS_var_nth [of 31]
    BIDS_var_nth [of 32] BIDS_var_nth [of 33] BIDS_var_nth [of 34] BIDS_var_nth [of 35]
    BIDS_var_nth [of 36] BIDS_var_nth [of 37] BIDS_var_nth [of 38] BIDS_var_nth [of 39]
    BIDS_var_nth [of 40] BIDS_var_nth [of 41] BIDS_var_nth [of 42] BIDS_var_nth [of 43]
    BIDS_var_nth [of 44] BIDS_var_nth [of 45] BIDS_var_nth [of 46] BIDS_var_nth [of 47]
    BIDS_var_nth [of 48] BIDS_var_nth [of 49] BIDS_var_nth [of 50] BIDS_var_nth [of 51]
    BIDS_var_nth [of 52] BIDS_var_nth [of 53] BIDS_var_nth [of 54]
  by (simp add: BIDS_variables_def)


text \<open>The tables name every slot of the summary once.\<close>

lemma rising_bounds: "rising lo hi xs \<Longrightarrow> \<forall>x\<in>set xs. lo \<le> x \<and> x < hi"
  by (induction xs arbitrary: lo) fastforce+

lemma rising_distinct: "rising lo hi xs \<Longrightarrow> distinct xs"
proof (induction xs arbitrary: lo)
  case Nil
  then show ?case by simp
next
  case (Cons x xs)
  then have "\<forall>y\<in>set xs. x + 1 \<le> y" using rising_bounds [of "x + 1" hi xs] by simp
  then have "x \<notin> set xs" by auto
  moreover have "distinct xs" using Cons.IH [of "x + 1"] Cons.prems by simp
  ultimately show ?case by simp
qed

lemma rising_table_ok: "rising 0 n (concat (map ch_slots chans)) \<Longrightarrow> table_ok n chans"
  using rising_bounds [of 0 n "concat (map ch_slots chans)"] rising_distinct [of 0 n "concat (map ch_slots chans)"]
  by (simp add: table_ok_def list_all_iff)

lemma GVDS_table_ok: "table_ok 199 GVDS_channels"
  by (rule rising_table_ok) (simp add: GVDS_channels_def upt_4)

lemma WNDS_table_ok: "table_ok 54 WNDS_channels"
  by (rule rising_table_ok) (simp add: WNDS_channels_def WNDS_slot_of)

lemma BIDS_table_ok: "table_ok 55 BIDS_channels"
  by (rule rising_table_ok) (simp add: BIDS_channels_def BIDS_slot_of)

lemma MVDS_table_ok: "table_ok 119 MVDS_channels"
  by (simp add: table_ok_def MVDS_channels_def)

text \<open>A frame whose timestamp decodes has at least 255 bytes and a formatted time.\<close>

lemma decodable_length: "decodable clk off f \<Longrightarrow> 255 \<le> length f"
  by (auto simp: decodable_iff extract_frame_time_def split: if_splits)

lemma decodable_time: "decodable clk off f \<Longrightarrow> frame_time_str clk f off = Inr (time_of clk off f)"
  by (auto simp: decodable_iff frame_time_str_def time_of_def)

text \<open>
  The run of a judge function over frames that it can decode: it returns, the summary
  has the length of the table's slots, and every channel holds the fold of its
  reduction over the frames, started from 0.
\<close>

lemma profile_run:
  assumes ref: "\<And>res f. f \<in> set frames \<Longrightarrow>
                  step res f = seqR (map (run_chan spd (tm f) f) chans) res"
    and tab: "table_ok n chans"
  shows "\<exists>out. for_frames step (replicate n (Num 0)) frames = Inr out \<and> length out = n
           \<and> (\<forall>ch\<in>set chans. ch_after spd tm frames (replicate n (Num 0)) out ch)"
proof -
  have num: "\<forall>ch\<in>set chans. \<forall>k\<in>set (ch_nums ch). is_num (replicate n (Num 0) ! k)"
  proof (intro ballI)
    fix ch k assume ch: "ch \<in> set chans" and k: "k \<in> set (ch_nums ch)"
    then have "k \<in> set (concat (map ch_slots chans))" using ch_nums_subset [of ch] by auto
    then have "k < n" using tab by (auto simp: table_ok_def list_all_iff)
    then show "is_num (replicate n (Num 0) ! k)" by simp
  qed
  show ?thesis
    using for_frames_ok [of frames n step spd tm chans "replicate n (Num 0)", OF _ tab _ num] ref
    by auto
qed

lemma WNDS_run:
  assumes "\<forall>f\<in>set frames. decodable clk off f"
  shows "\<exists>out. WNDS_data_judge clk frames off = Inr out \<and> length out = 54
           \<and> (\<forall>ch\<in>set WNDS_channels.
                 ch_after WNDS_speed (time_of clk off) frames (replicate 54 (Num 0)) out ch)"
  unfolding WNDS_data_judge_def WNDS_length
  using assms
  by (intro profile_run WNDS_table_ok WNDS_refine) (auto simp: decodable_length decodable_time)

lemma BIDS_run:
  assumes "\<forall>f\<in>set frames. decodable clk off f"
  shows "\<exists>out. BIDS_data_judge clk frames off = Inr out \<and> length out = 55
           \<and> (\<forall>ch\<in>set BIDS_channels.
                 ch_after BIDS_speed (time_of clk off) frames (replicate 55 (Num 0)) out ch)"
  unfolding BIDS_data_judge_def BIDS_length
  using assms
  by (intro profile_run BIDS_table_ok BIDS_refine) (auto simp: decodable_length decodable_time)

lemma MVDS_run:
  assumes "\<forall>f\<in>set frames. decodable clk off f"
  shows "\<exists>out. MVDS_data_judge clk frames off = Inr out \<and> length out = 119
           \<and> (\<forall>ch\<in>set MVDS_channels.
                 ch_after MVDS_speed (time_of clk off) frames (replicate 119 (Num 0)) out ch)"
  unfolding MVDS_data_judge_def
  using assms
  by (intro profile_run MVDS_table_ok MVDS_refine) (auto simp: decodable_length decodable_time)

lemma GVDS_run:
  assumes "\<forall>f\<in>set frames. decodable clk off f \<and> 302 \<le> length f"
  shows "\<exists>out. GVDS_data_judge clk frames off = Inr out \<and> length out = 199
           \<and> (\<forall>ch\<in>set GVDS_channels.
                 ch_after GVDS_speed (time_of clk off) frames (replicate 199 (Num 0)) out ch)"
  unfolding GVDS_data_judge_def
  using assms
  by (intro profile_run GVDS_table_ok GVDS_refine) (auto simp: decodable_time)

section \<open>The folds of the reductions\<close>

lemma last_event_snoc:
  "last_event c tm (fs @ [f]) b = (if c f then Str (tm f) else last_event c tm fs b)"
  by (cases "filter c fs") (simp_all add: last_event_def)

lemma mark_fold:
  "foldl (\<lambda>v f. if c f then Str (tm f) else v) b fs = last_event c tm fs b"
proof (induction fs rule: rev_induct)
  case Nil
  then show ?case by (simp add: last_event_def)
next
  case (snoc f fs)
  then show ?case by (simp add: last_event_snoc)
qed

lemma judge_zero_fold:
  assumes "\<forall>f\<in>set fs. dv f = 0"
  shows "foldl (\<lambda>acc f. judge (dv f) (dw f) (spd f) acc) (0, s) fs
           = (0, foldl (\<lambda>m f. max m (spd f)) s fs)"
  using assms
proof (induction fs arbitrary: s)
  case Nil
  then show ?case by simp
next
  case (Cons f fs)
  have "judge (dv f) (dw f) (spd f) (0, s) = (0, max s (spd f))"
    using Cons.prems by (auto simp: judge_def max_def)
  then show ?case using Cons by simp
qed

lemma foldl_max_Max:
  "foldl (\<lambda>m f. max m (spd f)) (s::rat) fs = Max (insert s (spd ` set fs))"
proof (induction fs arbitrary: s)
  case Nil
  then show ?case by simp
next
  case (Cons f fs)
  have "Max (insert (max s (spd f)) (spd ` set fs)) = Max (insert s (insert (spd f) (spd ` set fs)))"
  proof (cases "fs = []")
    case True
    then show ?thesis by (simp add: max.commute)
  next
    case False
    then have ne: "spd ` set fs \<noteq> {}" by simp
    show ?thesis using ne by (simp add: max.assoc)
  qed
  then show ?case using Cons.IH [of "max s (spd f)"] by simp
qed

lemma Max_insert_zero:
  assumes "fs \<noteq> []" "\<forall>f\<in>set fs. (0::rat) \<le> spd f"
  shows "Max (insert 0 (spd ` set fs)) = Max (spd ` set fs)"
proof -
  have ne: "spd ` set fs \<noteq> {}" using assms(1) by simp
  have "0 \<le> Max (spd ` set fs)"
  proof -
    obtain f where f: "f \<in> set fs" using assms(1) by (cases fs) auto
    have "spd f \<le> Max (spd ` set fs)" using f by simp
    moreover have "0 \<le> spd f" using assms(2) f by blast
    ultimately show ?thesis by (rule order_trans [rotated])
  qed
  then show ?thesis using ne by (simp add: max_def)
qed

lemma judge_zero_result:
  assumes "fs \<noteq> []" "\<forall>f\<in>set fs. dv f = 0" "\<forall>f\<in>set fs. 0 \<le> spd f"
  shows "foldl (\<lambda>acc f. judge (dv f) (dw f) (spd f) acc) (0, 0) fs = (0, Max (spd ` set fs))"
  using judge_zero_fold [OF assms(2), of dw spd 0] foldl_max_Max [of spd 0 fs]
    Max_insert_zero [OF assms(1,3)] by simp

lemma judge_lex:
  "judge v v speed (m, s) = (if m < v \<or> (m = v \<and> s < speed) then (v, speed) else (m, s))"
  by (auto simp: judge_def)

lemma judge3_lex:
  "judge3 amp fre speed (a, b, c) =
     (if a < amp \<or> (a = amp \<and> (b < fre \<or> (b = fre \<and> c < speed))) then (amp, fre, speed) else (a, b, c))"
  by (auto simp: judge3_def)

lemma judge_example:
  "foldl (\<lambda>acc (v, speed). judge v v speed acc) (0, 0) [(10, 50), (10, 80), (7, 99)] = (10, 80)"
  by (simp add: judge_def)

lemma judge3_example:
  "foldl (\<lambda>acc (amp, fre, speed). judge3 amp fre speed acc) (0, 0, 0)
     [(5, 20, 60), (5, 25, 40), (5, 25, 70)] = (5, 25, 70)"
  by (simp add: judge3_def)

lemma round_half_even_nonneg: "0 \<le> x \<Longrightarrow> 0 \<le> round_half_even x"
  by (auto simp: round_half_even_def Let_def)

lemma round3_nonneg: "0 \<le> x \<Longrightarrow> 0 \<le> round3 x"
  using round_half_even_nonneg [of "x * 1000"] by (simp add: round3_def)

lemma raw16_nonneg: "0 \<le> raw16 f a"
  unfolding raw16_def by (rule of_nat_0_le_iff)

lemma speeds_nonneg:
  "0 \<le> WNDS_speed f" "0 \<le> BIDS_speed f" "0 \<le> GVDS_speed f" "0 \<le> MVDS_speed f"
  by (simp_all add: WNDS_speed_def BIDS_speed_def GVDS_speed_def MVDS_speed_def raw16_nonneg round3_nonneg)

section \<open>The summaries of the judge functions\<close>

lemma table_slot_bound:
  assumes "table_ok n chans" "ch \<in> set chans" "k \<in> set (ch_slots ch)"
  shows "k < n"
  using assms by (auto simp: table_ok_def list_all_iff)

lemma events_from_run:
  assumes tab: "table_ok n chans"
    and run: "\<forall>ch\<in>set chans. ch_after spd tm frames (replicate n (Num 0)) out ch"
  shows "events_hold tm frames chans out"
  unfolding events_hold_def
proof (intro allI impI)
  fix k c assume m: "Mark_ch k c \<in> set chans"
  have k: "k < n" using table_slot_bound [OF tab m] by simp
  have "ch_after spd tm frames (replicate n (Num 0)) out (Mark_ch k c)" using run m by blast
  then show "out ! k = last_event c tm frames (Num 0)" using k by (simp add: mark_fold)
qed

lemma zeros_from_run:
  assumes tab: "table_ok n chans"
    and run: "\<forall>ch\<in>set chans. ch_after spd tm frames (replicate n (Num 0)) out ch"
    and ne: "frames \<noteq> []" and pos: "\<forall>f. 0 \<le> spd f"
  shows "zero_channels_hold spd frames chans out"
  unfolding zero_channels_hold_def
proof (intro allI impI)
  fix kmax kspeed dv dw
  assume h: "Judge_ch kmax kspeed dv dw \<in> set chans \<and> (\<forall>f\<in>set frames. dv f = 0)"
  have k: "kmax < n" "kspeed < n" using table_slot_bound [OF tab conjunct1 [OF h]] by simp_all
  have "ch_after spd tm frames (replicate n (Num 0)) out (Judge_ch kmax kspeed dv dw)"
    using run h by blast
  moreover have "foldl (\<lambda>acc f. judge (dv f) (dw f) (spd f) acc) (0, 0) frames = (0, Max (spd ` set frames))"
    using judge_zero_result [OF ne, of dv spd dw] h pos by simp
  ultimately show "out ! kmax = Num 0 \<and> out ! kspeed = Num (Max (spd ` set frames))"
    using k by simp
qed

lemma stamped_decodable:
  assumes "255 \<le> n" "unat sec < 60" "\<forall>kv\<in>set kvs. 6 \<le> fst kv"
  shows "decodable clk 0 (stamped n sec kvs)"
  using stamped_time [OF assms] by (simp add: decodable_iff)

lemma utc_local_1: "utc_localtime 1742034601 = \<lparr>year = 2025, month = 3, day = 15, hour = 10, minute = 30, second = 1\<rparr>"
  by code_simp

lemma utc_local_2: "utc_localtime 1742034602 = \<lparr>year = 2025, month = 3, day = 15, hour = 10, minute = 30, second = 2\<rparr>"
  by code_simp

lemma utc_local_3: "utc_localtime 1742034603 = \<lparr>year = 2025, month = 3, day = 15, hour = 10, minute = 30, second = 3\<rparr>"
  by code_simp

lemma utc_mktime_sec:
  "utc_mktime \<lparr>year = 2025, month = 3, day = 15, hour = 10, minute = 30, second = s\<rparr> = 1742034600 + int s"
  by (simp add: utc_mktime_def days_from_civil_def)

lemma stamped_time_of:
  assumes "255 \<le> n" "unat sec < 60" "\<forall>kv\<in>set kvs. 6 \<le> fst kv"
  shows "time_of utc_clock 0 (stamped n sec kvs) = strftime (utc_localtime (1742034600 + int (unat sec)))"
  using stamped_time [OF assms, of utc_clock]
  by (simp add: time_of_def frame_time_str_def utc_clock_def utc_mktime_sec)

lemma strftime_3:
  "strftime \<lparr>year = 2025, month = 3, day = 15, hour = 10, minute = 30, second = 3\<rparr> = ''2025-03-15 10:30:03''"
  by (simp add: strftime_def digits2_def digits4_def digit_def)

lemma zero_frame_fails: "extract_frame_time clk (replicate 302 0) 0 = Inl ValueError"
proof -
  have "extract_frame_time clk (replicate 302 0) (int 0) = Inl ValueError"
    unfolding extract_frame_time_nat by (simp add: valid_civil_def)
  then show ?thesis by simp
qed

text \<open>
  Claim C9, as amended. For every list of frames whose timestamps decode at the time
  offset (and, for GVDS, that have the 302 bytes its loop reads), each judge function
  returns a summary of a fixed length, 54 for WNDS, 55 for BIDS, 199 for GVDS and 119
  for MVDS, in which every channel of the profile's table holds, at the slots that the
  table names, the fold of its reduction over the frames.
\<close>

theorem judge_summary_length:
  "((\<forall>f\<in>set framelist. decodable clk time_offset f) \<longrightarrow>
      (\<exists>out. WNDS_data_judge clk framelist time_offset = Inr out \<and> length out = 54
         \<and> (\<forall>ch\<in>set WNDS_channels.
               ch_after WNDS_speed (time_of clk time_offset) framelist (replicate 54 (Num 0)) out ch))
    \<and> (\<exists>out. BIDS_data_judge clk framelist time_offset = Inr out \<and> length out = 55
         \<and> (\<forall>ch\<in>set BIDS_channels.
               ch_after BIDS_speed (time_of clk time_offset) framelist (replicate 55 (Num 0)) out ch))
    \<and> (\<exists>out. MVDS_data_judge clk framelist time_offset = Inr out \<and> length out = 119
         \<and> (\<forall>ch\<in>set MVDS_channels.
               ch_after MVDS_speed (time_of clk time_offset) framelist (replicate 119 (Num 0)) out ch)))
   \<and> ((\<forall>f\<in>set framelist. decodable clk time_offset f \<and> 302 \<le> length f) \<longrightarrow>
      (\<exists>out. GVDS_data_judge clk framelist time_offset = Inr out \<and> length out = 199
         \<and> (\<forall>ch\<in>set GVDS_channels.
               ch_after GVDS_speed (time_of clk time_offset) framelist (replicate 199 (Num 0)) out ch)))"
  using WNDS_run [of framelist clk time_offset] BIDS_run [of framelist clk time_offset]
    MVDS_run [of framelist clk time_offset] GVDS_run [of framelist clk time_offset]
  by blast

theorem judge_summary_length_witness:
  "(\<exists>out. WNDS_data_judge utc_clock [stamped 302 1 []] 0 = Inr out \<and> length out = 54)
   \<and> (\<exists>out. BIDS_data_judge utc_clock [stamped 302 1 []] 0 = Inr out \<and> length out = 55)
   \<and> (\<exists>out. MVDS_data_judge utc_clock [stamped 302 1 []] 0 = Inr out \<and> length out = 119)
   \<and> (\<exists>out. GVDS_data_judge utc_clock [stamped 302 1 []] 0 = Inr out \<and> length out = 199)"
proof -
  have d: "decodable utc_clock 0 (stamped 302 1 [])"
    by (rule stamped_decodable) simp_all
  have h1: "\<forall>f\<in>set [stamped 302 1 []]. decodable utc_clock 0 f" using d by simp
  have h2: "\<forall>f\<in>set [stamped 302 1 []]. decodable utc_clock 0 f \<and> 302 \<le> length f" using d by simp
  show ?thesis
    using judge_summary_length [of "[stamped 302 1 []]" utc_clock 0, THEN conjunct1, THEN mp, OF h1]
      judge_summary_length [of "[stamped 302 1 []]" utc_clock 0, THEN conjunct2, THEN mp, OF h2]
    by blast
qed

text \<open>
  The claim as it is stated fails: a frame of 302 zero bytes is long enough for every
  field that the four functions read, and with the time offset 0 each of them raises
  ValueError on it, because the bytes of the time are not a date.
\<close>

theorem judge_raises_on_undecodable_frame:
  "WNDS_data_judge utc_clock [replicate 302 0] 0 = Inl ValueError
   \<and> BIDS_data_judge utc_clock [replicate 302 0] 0 = Inl ValueError
   \<and> GVDS_data_judge utc_clock [replicate 302 0] 0 = Inl ValueError
   \<and> MVDS_data_judge utc_clock [replicate 302 0] 0 = Inl ValueError
   \<and> length (replicate 302 (0::byte)) = 302"
  by (simp add: WNDS_data_judge_def BIDS_data_judge_def GVDS_data_judge_def MVDS_data_judge_def
      WNDS_frame_def BIDS_frame_def GVDS_frame_def MVDS_frame_def frame_time_str_def zero_frame_fails)

text \<open>
  Claim C3. In each of the four judge functions, every event channel of the table
  holds, after the run over the frames in stream order, the formatted time of the last
  frame that satisfied the channel's condition (a bit of its mask set), and the
  integer 0 when no frame did. Over three frames of which the first and the third
  satisfy the condition and the second does not, the value is the time of the third.
\<close>

theorem event_timestamp_last:
  "((\<forall>f\<in>set frames. decodable clk time_offset f) \<longrightarrow>
      (\<exists>out. WNDS_data_judge clk frames time_offset = Inr out
         \<and> events_hold (time_of clk time_offset) frames WNDS_channels out)
    \<and> (\<exists>out. BIDS_data_judge clk frames time_offset = Inr out
         \<and> events_hold (time_of clk time_offset) frames BIDS_channels out)
    \<and> (\<exists>out. MVDS_data_judge clk frames time_offset = Inr out
         \<and> events_hold (time_of clk time_offset) frames MVDS_channels out))
   \<and> ((\<forall>f\<in>set frames. decodable clk time_offset f \<and> 302 \<le> length f) \<longrightarrow>
      (\<exists>out. GVDS_data_judge clk frames time_offset = Inr out
         \<and> events_hold (time_of clk time_offset) frames GVDS_channels out))
   \<and> (cond f1 \<and> \<not> cond f2 \<and> cond f3 \<longrightarrow> last_event cond tm [f1, f2, f3] (Num 0) = Str (tm f3))"
proof (intro conjI impI)
  assume h: "\<forall>f\<in>set frames. decodable clk time_offset f"
  show "\<exists>out. WNDS_data_judge clk frames time_offset = Inr out
         \<and> events_hold (time_of clk time_offset) frames WNDS_channels out"
    using WNDS_run [OF h] events_from_run [OF WNDS_table_ok] by blast
  show "\<exists>out. BIDS_data_judge clk frames time_offset = Inr out
         \<and> events_hold (time_of clk time_offset) frames BIDS_channels out"
    using BIDS_run [OF h] events_from_run [OF BIDS_table_ok] by blast
  show "\<exists>out. MVDS_data_judge clk frames time_offset = Inr out
         \<and> events_hold (time_of clk time_offset) frames MVDS_channels out"
    using MVDS_run [OF h] events_from_run [OF MVDS_table_ok] by blast
next
  assume h: "\<forall>f\<in>set frames. decodable clk time_offset f \<and> 302 \<le> length f"
  show "\<exists>out. GVDS_data_judge clk frames time_offset = Inr out
         \<and> events_hold (time_of clk time_offset) frames GVDS_channels out"
    using GVDS_run [OF h] events_from_run [OF GVDS_table_ok] by blast
next
  assume "cond f1 \<and> \<not> cond f2 \<and> cond f3"
  then show "last_event cond tm [f1, f2, f3] (Num 0) = Str (tm f3)"
    by (simp add: last_event_def)
qed

lemma WNDS_warn_channel: "Mark_ch 4 (\<lambda>f. f ! 88 AND BIT0_MASK \<noteq> 0) \<in> set WNDS_channels"
  by (simp add: WNDS_channels_def WNDS_slot_of)

theorem event_timestamp_last_witness:
  "\<exists>out. WNDS_data_judge utc_clock
       [stamped 255 1 [(88, 1)], stamped 255 2 [], stamped 255 3 [(88, 1)]] 0 = Inr out
     \<and> out ! 4 = Str ''2025-03-15 10:30:03''"
proof -
  let ?f1 = "stamped 255 1 [(88, 1)]" and ?f2 = "stamped 255 2 []" and ?f3 = "stamped 255 3 [(88, 1)]"
  have d: "\<forall>f\<in>set [?f1, ?f2, ?f3]. decodable utc_clock 0 f"
    by (simp add: stamped_decodable)
  obtain out where run: "WNDS_data_judge utc_clock [?f1, ?f2, ?f3] 0 = Inr out"
    and ev: "events_hold (time_of utc_clock 0) [?f1, ?f2, ?f3] WNDS_channels out"
    using event_timestamp_last [of "[?f1, ?f2, ?f3]" utc_clock 0, THEN conjunct1, THEN mp, OF d]
    by blast
  have c: "?f1 ! 88 AND BIT0_MASK \<noteq> 0" "\<not> ?f2 ! 88 AND BIT0_MASK \<noteq> 0" "?f3 ! 88 AND BIT0_MASK \<noteq> 0"
    by (simp_all add: stamped_nth BIT0_MASK_def)
  have "out ! 4 = last_event (\<lambda>f. f ! 88 AND BIT0_MASK \<noteq> 0) (time_of utc_clock 0) [?f1, ?f2, ?f3] (Num 0)"
    using ev WNDS_warn_channel by (simp add: events_hold_def)
  also have "\<dots> = Str (time_of utc_clock 0 ?f3)"
    using c by (simp add: last_event_def)
  also have "time_of utc_clock 0 ?f3 = ''2025-03-15 10:30:03''"
    by (simp add: stamped_time_of utc_local_3 strftime_3)
  finally show ?thesis using run by simp
qed

text \<open>
  Claim C10. In each of the four judge functions, over a list of frames that is not
  empty, every value-with-speed channel whose decoded value is 0 in every frame ends
  with the best value 0 and, as its speed, the greatest speed of the frames: a value
  equal to the initial 0 takes the equality branch and raises the recorded speed.
\<close>

theorem zero_value_keeps_max_speed:
  "(framelist \<noteq> [] \<and> (\<forall>f\<in>set framelist. decodable clk time_offset f) \<longrightarrow>
      (\<exists>out. WNDS_data_judge clk framelist time_offset = Inr out
         \<and> zero_channels_hold WNDS_speed framelist WNDS_channels out)
    \<and> (\<exists>out. BIDS_data_judge clk framelist time_offset = Inr out
         \<and> zero_channels_hold BIDS_speed framelist BIDS_channels out)
    \<and> (\<exists>out. MVDS_data_judge clk framelist time_offset = Inr out
         \<and> zero_channels_hold MVDS_speed framelist MVDS_channels out))
   \<and> (framelist \<noteq> [] \<and> (\<forall>f\<in>set framelist. decodable clk time_offset f \<and> 302 \<le> length f) \<longrightarrow>
      (\<exists>out. GVDS_data_judge clk framelist time_offset = Inr out
         \<and> zero_channels_hold GVDS_speed framelist GVDS_channels out))"
proof (intro conjI impI)
  assume a: "framelist \<noteq> [] \<and> (\<forall>f\<in>set framelist. decodable clk time_offset f)"
  then have ne: "framelist \<noteq> []" and h: "\<forall>f\<in>set framelist. decodable clk time_offset f" by simp_all
  show "\<exists>out. WNDS_data_judge clk framelist time_offset = Inr out
         \<and> zero_channels_hold WNDS_speed framelist WNDS_channels out"
    using WNDS_run [OF h] zeros_from_run [OF WNDS_table_ok _ ne] speeds_nonneg(1) by blast
  show "\<exists>out. BIDS_data_judge clk framelist time_offset = Inr out
         \<and> zero_channels_hold BIDS_speed framelist BIDS_channels out"
    using BIDS_run [OF h] zeros_from_run [OF BIDS_table_ok _ ne] speeds_nonneg(2) by blast
  show "\<exists>out. MVDS_data_judge clk framelist time_offset = Inr out
         \<and> zero_channels_hold MVDS_speed framelist MVDS_channels out"
    using MVDS_run [OF h] zeros_from_run [OF MVDS_table_ok _ ne] speeds_nonneg(4) by blast
next
  assume a: "framelist \<noteq> [] \<and> (\<forall>f\<in>set framelist. decodable clk time_offset f \<and> 302 \<le> length f)"
  then have ne: "framelist \<noteq> []"
    and h: "\<forall>f\<in>set framelist. decodable clk time_offset f \<and> 302 \<le> length f" by simp_all
  show "\<exists>out. GVDS_data_judge clk framelist time_offset = Inr out
         \<and> zero_channels_hold GVDS_speed framelist GVDS_channels out"
    using GVDS_run [OF h] zeros_from_run [OF GVDS_table_ok _ ne] speeds_nonneg(3) by blast
qed

lemma WNDS_stable_channel:
  "Judge_ch 12 13 (\<lambda>f. raw16 f 105 * (1 / 100)) (\<lambda>f. raw16 f 105 * (1 / 100)) \<in> set WNDS_channels"
  by (simp add: WNDS_channels_def WNDS_slot_of)

lemma stamped_speed:
  "WNDS_speed (stamped 255 s [(78, a), (79, b)]) = of_nat (unat a * 256 + unat b) * (1 / 100)"
  by (simp add: WNDS_speed_def raw16_def stamped_nth)

theorem zero_value_keeps_max_speed_witness:
  "\<exists>out. WNDS_data_judge utc_clock
       [stamped 255 1 [(78, 0x13), (79, 0x88)], stamped 255 2 [(78, 0x1F), (79, 0x40)]] 0 = Inr out
     \<and> out ! 12 = Num 0 \<and> out ! 13 = Num 80"
proof -
  let ?f1 = "stamped 255 1 [(78, 0x13), (79, 0x88)]" and ?f2 = "stamped 255 2 [(78, 0x1F), (79, 0x40)]"
  have d: "[?f1, ?f2] \<noteq> [] \<and> (\<forall>f\<in>set [?f1, ?f2]. decodable utc_clock 0 f)"
    by (simp add: stamped_decodable)
  obtain out where run: "WNDS_data_judge utc_clock [?f1, ?f2] 0 = Inr out"
    and z: "zero_channels_hold WNDS_speed [?f1, ?f2] WNDS_channels out"
    using zero_value_keeps_max_speed [of "[?f1, ?f2]" utc_clock 0, THEN conjunct1, THEN mp, OF d]
    by blast
  have v: "\<forall>f\<in>set [?f1, ?f2]. raw16 f 105 * (1 / 100) = 0"
    by (simp add: raw16_def stamped_nth)
  have s: "WNDS_speed ?f1 = 50" "WNDS_speed ?f2 = 80"
    by (simp_all add: stamped_speed)
  have "out ! 12 = Num 0 \<and> out ! 13 = Num (Max (WNDS_speed ` set [?f1, ?f2]))"
    using z WNDS_stable_channel v unfolding zero_channels_hold_def by blast
  then show ?thesis using run s by simp
qed

lemma amplitudes_from_run:
  assumes tab: "table_ok n chans"
    and run: "\<forall>ch\<in>set chans. ch_after spd tm frames (replicate n (Num 0)) out ch"
  shows "amplitudes_hold spd frames chans out"
  unfolding amplitudes_hold_def
proof (intro allI impI)
  fix kamp kfre kspeed da df
  assume m: "Judge3_ch kamp kfre kspeed da df \<in> set chans"
  have k: "kamp < n" "kfre < n" "kspeed < n" using table_slot_bound [OF tab m] by simp_all
  have "ch_after spd tm frames (replicate n (Num 0)) out (Judge3_ch kamp kfre kspeed da df)"
    using run m by blast
  then show "(out ! kamp, out ! kfre, out ! kspeed) =
          (case foldl (\<lambda>acc f. judge3 (da f) (df f) (spd f) acc) (0, 0, 0) frames
           of (a, b, c) \<Rightarrow> (Num a, Num b, Num c))"
    using k by simp
qed

lemma WNDS_amplitude_channels:
  "Judge3_ch 32 33 34 (\<lambda>f. raw8 f 99 * (1 / 1000)) (\<lambda>f. raw16 f 101 * (1 / 10)) \<in> set WNDS_channels"
  "Judge3_ch 35 36 37 (\<lambda>f. raw8 f 100 * (1 / 1000)) (\<lambda>f. raw16 f 103 * (1 / 10)) \<in> set WNDS_channels"
  by (simp_all add: WNDS_channels_def WNDS_slot_of)

text \<open>
  Claim C2. The two main-frequency-amplitude channels of WNDS\_data\_judge, at the
  slots 32, 33, 34 (amplitude of byte 99, frequency of bytes 101 and 102) and 35, 36, 37
  (amplitude of byte 100, frequency of bytes 103 and 104), hold after the run the fold
  over the frames of the three-key reduction: a greater amplitude replaces all three
  components; an equal amplitude with a greater frequency replaces the frequency and
  the speed; an equal amplitude and frequency with a greater speed replaces the speed;
  every other frame leaves them as they are. The reduction keeps the greatest triple
  in the lexicographic order, and over the triples (5, 20, 60), (5, 25, 40),
  (5, 25, 70) in that order it gives (5, 25, 70).
\<close>

theorem amplitude_frequency_speed:
  "((\<forall>f\<in>set framelist. decodable clk time_offset f) \<longrightarrow>
      (\<exists>out. WNDS_data_judge clk framelist time_offset = Inr out
         \<and> amplitudes_hold WNDS_speed framelist WNDS_channels out))
   \<and> Judge3_ch 32 33 34 (\<lambda>f. raw8 f 99 * (1 / 1000)) (\<lambda>f. raw16 f 101 * (1 / 10)) \<in> set WNDS_channels
   \<and> Judge3_ch 35 36 37 (\<lambda>f. raw8 f 100 * (1 / 1000)) (\<lambda>f. raw16 f 103 * (1 / 10)) \<in> set WNDS_channels
   \<and> judge3 amp fre speed (a, b, c) =
        (if amp > a then (amp, fre, speed)
         else if amp = a \<and> fre > b then (a, fre, speed)
         else if amp = a \<and> fre = b \<and> speed > c then (a, b, speed)
         else (a, b, c))
   \<and> judge3 amp fre speed (a, b, c) =
        (if a < amp \<or> (a = amp \<and> (b < fre \<or> (b = fre \<and> c < speed))) then (amp, fre, speed) else (a, b, c))
   \<and> foldl (\<lambda>acc (amp, fre, speed). judge3 amp fre speed acc) (0, 0, 0)
        [(5, 20, 60), (5, 25, 40), (5, 25, 70)] = (5, 25, 70)"
proof (intro conjI impI)
  assume h: "\<forall>f\<in>set framelist. decodable clk time_offset f"
  show "\<exists>out. WNDS_data_judge clk framelist time_offset = Inr out
         \<and> amplitudes_hold WNDS_speed framelist WNDS_channels out"
    using WNDS_run [OF h] amplitudes_from_run [OF WNDS_table_ok] by blast
next
  show "Judge3_ch 32 33 34 (\<lambda>f. raw8 f 99 * (1 / 1000)) (\<lambda>f. raw16 f 101 * (1 / 10)) \<in> set WNDS_channels"
    by (rule WNDS_amplitude_channels(1))
  show "Judge3_ch 35 36 37 (\<lambda>f. raw8 f 100 * (1 / 1000)) (\<lambda>f. raw16 f 103 * (1 / 10)) \<in> set WNDS_channels"
    by (rule WNDS_amplitude_channels(2))
  show "judge3 amp fre speed (a, b, c) =
        (if amp > a then (amp, fre, speed)
         else if amp = a \<and> fre > b then (a, fre, speed)
         else if amp = a \<and> fre = b \<and> speed > c then (a, b, speed)
         else (a, b, c))"
    by (simp add: judge3_def)
  show "judge3 amp fre speed (a, b, c) =
        (if a < amp \<or> (a = amp \<and> (b < fre \<or> (b = fre \<and> c < speed))) then (amp, fre, speed) else (a, b, c))"
    by (rule judge3_lex)
  show "foldl (\<lambda>acc (amp, fre, speed). judge3 amp fre speed acc) (0, 0, 0)
        [(5, 20, 60), (5, 25, 40), (5, 25, 70)] = (5, 25, 70)"
    by (rule judge3_example)
qed

lemma amplitude_sample:
  "raw8 (stamped 255 s [(99, a), (101, h), (102, l), (78, x), (79, y)]) 99 = of_nat (unat a)"
  "raw16 (stamped 255 s [(99, a), (101, h), (102, l), (78, x), (79, y)]) 101 = of_nat (unat h * 256 + unat l)"
  "WNDS_speed (stamped 255 s [(99, a), (101, h), (102, l), (78, x), (79, y)]) = of_nat (unat x * 256 + unat y) * (1 / 100)"
  by (simp_all add: WNDS_speed_def raw8_def raw16_def stamped_nth)

theorem amplitude_frequency_speed_witness:
  "\<exists>out. WNDS_data_judge utc_clock
       [stamped 255 1 [(99, 5), (101, 0), (102, 200), (78, 0x17), (79, 0x70)],
        stamped 255 2 [(99, 5), (101, 0), (102, 250), (78, 0x0F), (79, 0xA0)],
        stamped 255 3 [(99, 5), (101, 0), (102, 250), (78, 0x1B), (79, 0x58)]] 0 = Inr out
     \<and> out ! 32 = Num (5 / 1000) \<and> out ! 33 = Num 25 \<and> out ! 34 = Num 70"
proof -
  let ?f1 = "stamped 255 1 [(99, 5), (101, 0), (102, 200), (78, 0x17), (79, 0x70)]"
  let ?f2 = "stamped 255 2 [(99, 5), (101, 0), (102, 250), (78, 0x0F), (79, 0xA0)]"
  let ?f3 = "stamped 255 3 [(99, 5), (101, 0), (102, 250), (78, 0x1B), (79, 0x58)]"
  have d: "\<forall>f\<in>set [?f1, ?f2, ?f3]. decodable utc_clock 0 f"
    by (simp add: stamped_decodable)
  obtain out where run: "WNDS_data_judge utc_clock [?f1, ?f2, ?f3] 0 = Inr out"
    and a: "amplitudes_hold WNDS_speed [?f1, ?f2, ?f3] WNDS_channels out"
    using amplitude_frequency_speed [of "[?f1, ?f2, ?f3]" utc_clock 0, THEN conjunct1, THEN mp, OF d]
    by blast
  have "(out ! 32, out ! 33, out ! 34) =
          (case foldl (\<lambda>acc f. judge3 (raw8 f 99 * (1 / 1000)) (raw16 f 101 * (1 / 10)) (WNDS_speed f) acc)
                  (0, 0, 0) [?f1, ?f2, ?f3]
           of (a, b, c) \<Rightarrow> (Num a, Num b, Num c))"
    using a WNDS_amplitude_channels(1) unfolding amplitudes_hold_def by blast
  also have "\<dots> = (Num (5 / 1000), Num 25, Num 70)"
    by (simp add: amplitude_sample judge3_def)
  finally show ?thesis using run by simp
qed

lemma GVDS_slip_channels:
  "Judge_ch 65 66 (\<lambda>f. raw8 f 177) (\<lambda>f. raw8 f 178) \<in> set GVDS_channels"
  "Judge_ch 67 68 (\<lambda>f. raw8 f 178) (\<lambda>f. raw8 f 180) \<in> set GVDS_channels"
  by (simp_all add: GVDS_channels_def upt_4)

lemma judge_from_run:
  assumes tab: "table_ok n chans"
    and run: "\<forall>ch\<in>set chans. ch_after spd tm frames (replicate n (Num 0)) out ch"
    and m: "Judge_ch kmax kspeed dv dw \<in> set chans"
  shows "(out ! kmax, out ! kspeed) =
           map_prod Num Num (foldl (\<lambda>acc f. judge (dv f) (dw f) (spd f) acc) (0, 0) frames)"
proof -
  have k: "kmax < n" "kspeed < n" using table_slot_bound [OF tab m] by simp_all
  have "ch_after spd tm frames (replicate n (Num 0)) out (Judge_ch kmax kspeed dv dw)"
    using run m by blast
  then show ?thesis using k by simp
qed

lemma slip_sample:
  "raw8 (stamped 302 s [(177, a), (178, b), (78, x), (79, y)]) 177 = of_nat (unat a)"
  "raw8 (stamped 302 s [(177, a), (178, b), (78, x), (79, y)]) 178 = of_nat (unat b)"
  "raw8 (stamped 302 s [(177, a), (178, b), (78, x), (79, y)]) 180 = 0"
  "GVDS_speed (stamped 302 s [(177, a), (178, b), (78, x), (79, y)]) = of_nat (unat x * 256 + unat y) * (1 / 100)"
  by (simp_all add: GVDS_speed_def raw8_def raw16_def stamped_nth)

text \<open>
  Claim C1, on the GVDS blocks over the bytes 176..179. On one frame with the speed
  50, byte 177 = 5 and byte 178 = 9, the block of the slots 65 and 66 compares byte
  177 with the best value 0 and stores byte 178: the summary holds 9 where the value
  compared was 5. The block of the slots 67 and 68 compares byte 178 and stores
  byte 180: the summary holds 0 where the value compared was 9.
\<close>

theorem GVDS_stores_other_field:
  "\<exists>out. GVDS_data_judge utc_clock
       [stamped 302 1 [(177, 5), (178, 9), (78, 0x13), (79, 0x88)]] 0 = Inr out
     \<and> raw8 (stamped 302 1 [(177, 5), (178, 9), (78, 0x13), (79, 0x88)]) 177 = 5
     \<and> out ! 65 = Num 9 \<and> out ! 66 = Num 50
     \<and> raw8 (stamped 302 1 [(177, 5), (178, 9), (78, 0x13), (79, 0x88)]) 178 = 9
     \<and> out ! 67 = Num 0 \<and> out ! 68 = Num 50"
proof -
  let ?f = "stamped 302 1 [(177, 5), (178, 9), (78, 0x13), (79, 0x88)]"
  have d: "\<forall>f\<in>set [?f]. decodable utc_clock 0 f \<and> 302 \<le> length f"
    by (simp add: stamped_decodable stamped_length)
  obtain out where run: "GVDS_data_judge utc_clock [?f] 0 = Inr out"
    and chs: "\<forall>ch\<in>set GVDS_channels.
                ch_after GVDS_speed (time_of utc_clock 0) [?f] (replicate 199 (Num 0)) out ch"
    using GVDS_run [OF d] by blast
  have "(out ! 65, out ! 66) = (Num 9, Num 50)"
    using judge_from_run [OF GVDS_table_ok chs GVDS_slip_channels(1)]
    by (simp add: slip_sample judge_def)
  moreover have "(out ! 67, out ! 68) = (Num 0, Num 50)"
    using judge_from_run [OF GVDS_table_ok chs GVDS_slip_channels(2)]
    by (simp add: slip_sample judge_def)
  ultimately show ?thesis using run by (simp add: slip_sample)
qed


end
